theory Spec2Isabelle
  imports Complex_Main "HOL-Library.Sublist"
begin

section \<open>The NDI tracker driver (sksurgerynditracker/nditracker.py)\<close>

text \<open>
  A shallow embedding of class \<open>NDITracker\<close>. The instance is a record; every method is a
  function from the instance to a result and the instance after the call. A raised
  exception is the result \<open>Inl e\<close>, paired with the instance as the raise leaves it
  (Python does not roll back the assignments made before a raise). The functions of the
  \<open>ndicapy\<close> library, the \<open>ping\<close> subprocess and \<open>platform.system\<close> are the outside
  world: what they answer is a parameter (record \<open>ndicapy\<close>), and every call made to them
  is appended to the field \<open>calls\<close> of the instance, which the Python class does not have:
  it is the trace of the effects of the methods.
\<close>

subsection \<open>Values\<close>

text \<open>The exceptions the module raises or runs into.\<close>

datatype error =
    KeyError string
  | ValueError string
  | IOError string
  | TypeError string
  | IndexError string
  | UnboundLocalError string

text \<open>A description of a tool: a rom file name, or (aurora) a port number.\<close>

datatype pyval = PyStr string | PyInt int

text \<open>
  \<open>self.device\<close>: \<open>None\<close>, \<open>True\<close> (the dummy tracker) or the object that \<open>ndiOpen\<close> /
  \<open>ndiOpenNetwork\<close> answer.
\<close>

datatype pydev = PyNone | PyTrue | Handle nat

fun truthy :: "pydev \<Rightarrow> bool" where
  "truthy PyNone = False"
| "truthy PyTrue = True"
| "truthy (Handle h) = True"

text \<open>An element of a numpy float array: not-a-number, or a number.\<close>

datatype cell = NaN | Num real

text \<open>
  What \<open>ndiGetBXTransform\<close> and \<open>ndiGetGXTransform\<close> answer: the string \<open>"MISSING"\<close>, the
  string \<open>"DISABLED"\<close>, or a tuple of numbers.
\<close>

datatype transform = MISSING | DISABLED | Transform "cell list"

text \<open>One entry of \<open>self.tool_descriptors\<close>: a dict with up to three keys.\<close>

record tool =
  description :: pyval
  port_handle :: "int option"
  c_str_port_handle :: "string option"

text \<open>
  The configuration dictionary, typed by its documented keys: \<open>None\<close> is a key that is not
  in the dictionary.
\<close>

record configuration =
  cfg_tracker_type :: "string option"
  cfg_ip_address :: "string option"
  cfg_port :: "int option"
  cfg_romfiles :: "string list option"
  cfg_serial_port :: "int option"
  cfg_ports_to_probe :: "int option"
  cfg_ports_to_use :: "int list option"

text \<open>The calls made to the outside world.\<close>

datatype call =
    Ping string "string option"
  | NdiDeviceName "int option"
  | NdiProbe "string option"
  | NdiOpen "string option"
  | NdiClose pydev
  | NdiOpenNetwork "string option" "int option"
  | NdiCloseNetwork pydev
  | NdiGetPHSRNumberOfHandles pydev
  | NdiGetPHRQHandle pydev "int option"
  | NdiPVWRFromFile pydev int pyval
  | NdiGetBXTransform pydev "string option"
  | NdiGetBXFrame pydev "string option"
  | NdiGetGXTransform pydev "string option"
  | NdiGetGXFrame pydev "string option"
  | NdiCommand pydev string
  | NdiGetError pydev
  | NdiVER pydev int

text \<open>
  The outside world. Each answer may depend on all the calls made before it (the device
  has a state of its own) and on the arguments of the call.
\<close>

record ndicapy =
  NDI_OKAY :: int
  NDI_115200 :: int
  NDI_8N1 :: int
  NDI_NOHANDSHAKE :: int
  platform_system :: string
  ping_answer :: "call list \<Rightarrow> string \<Rightarrow> string option \<Rightarrow> int"
  deviceName_answer :: "call list \<Rightarrow> int option \<Rightarrow> string option"
  probe_answer :: "call list \<Rightarrow> string option \<Rightarrow> int"
  open_answer :: "call list \<Rightarrow> string option \<Rightarrow> pydev"
  openNetwork_answer :: "call list \<Rightarrow> string option \<Rightarrow> int option \<Rightarrow> pydev"
  numberOfHandles_answer :: "call list \<Rightarrow> pydev \<Rightarrow> int"
  phrqHandle_answer :: "call list \<Rightarrow> pydev \<Rightarrow> int option \<Rightarrow> int"
  bxTransform_answer :: "call list \<Rightarrow> pydev \<Rightarrow> string option \<Rightarrow> transform"
  bxFrame_answer :: "call list \<Rightarrow> pydev \<Rightarrow> string option \<Rightarrow> int"
  gxTransform_answer :: "call list \<Rightarrow> pydev \<Rightarrow> string option \<Rightarrow> transform"
  gxFrame_answer :: "call list \<Rightarrow> pydev \<Rightarrow> string option \<Rightarrow> int"
  error_answer :: "call list \<Rightarrow> pydev \<Rightarrow> int"
  errorString_answer :: "int \<Rightarrow> string"
  ver_answer :: "call list \<Rightarrow> pydev \<Rightarrow> string"

text \<open>The instance: the fields \<open>__init__\<close> creates, and the trace.\<close>

record NDITracker =
  device :: pydev
  tool_descriptors :: "tool list"
  tracker_type :: "string option"
  ip_address :: "string option"
  port :: "int option"
  serial_port :: "int option"
  ports_to_probe :: "int option"
  device_firmware_version :: "string option"
  use_bx_transforms :: "bool option"
  state :: "string option"
  calls :: "call list"

type_synonym 'a io = "NDITracker \<Rightarrow> (error + 'a) \<times> NDITracker"

definition ret :: "'a \<Rightarrow> 'a io" where
  "ret x = (\<lambda>s. (Inr x, s))"

definition raise :: "error \<Rightarrow> 'a io" where
  "raise e = (\<lambda>s. (Inl e, s))"

text \<open>Sequencing: a raise in the first statement skips the rest.\<close>

definition bnd :: "'a io \<Rightarrow> ('a \<Rightarrow> 'b io) \<Rightarrow> 'b io" where
  "bnd m f = (\<lambda>s. case m s of (Inl e, s') \<Rightarrow> (Inl e, s') | (Inr x, s') \<Rightarrow> f x s')"

definition modify :: "(NDITracker \<Rightarrow> NDITracker) \<Rightarrow> unit io" where
  "modify f = (\<lambda>s. (Inr (), f s))"

definition read :: "(NDITracker \<Rightarrow> 'a) \<Rightarrow> 'a io" where
  "read f = (\<lambda>s. (Inr (f s), s))"

text \<open>\<open>if c: body\<close> with no else.\<close>

definition py_if :: "bool \<Rightarrow> unit io \<Rightarrow> unit io" where
  "py_if c body = (if c then body else ret ())"

text \<open>A \<open>for\<close> loop with no \<open>break\<close>: a raise in the body leaves the loop.\<close>

fun fold_io :: "'i list \<Rightarrow> ('i \<Rightarrow> 'a \<Rightarrow> 'a io) \<Rightarrow> 'a \<Rightarrow> 'a io" where
  "fold_io [] body a = ret a"
| "fold_io (x # xs) body a = bnd (body x a) (fold_io xs body)"

fun for_each :: "'a list \<Rightarrow> ('a \<Rightarrow> unit io) \<Rightarrow> unit io" where
  "for_each [] body = ret ()"
| "for_each (x # xs) body = bnd (body x) (\<lambda>_. for_each xs body)"

text \<open>\<open>range(n)\<close> for an int \<open>n\<close>: empty when \<open>n \<le> 0\<close>.\<close>

definition py_range :: "int \<Rightarrow> int list" where
  "py_range n = map int [0..<nat n]"

subsection \<open>Strings\<close>

definition digit_char :: "nat \<Rightarrow> char" where
  "digit_char d = ''0123456789abcdef'' ! d"

fun digits :: "nat \<Rightarrow> nat \<Rightarrow> string" where
  "digits b n =
     (if b < 2 \<or> n < b then [digit_char n] else digits b (n div b) @ [digit_char (n mod b)])"

declare digits.simps [simp del]

text \<open>\<open>str(n)\<close> and \<open>'{}'.format(n)\<close>, \<open>'{:d}'.format(n)\<close> for an int.\<close>

definition str_int :: "int \<Rightarrow> string" where
  "str_int n = (if n < 0 then CHR ''-'' # digits 10 (nat (- n)) else digits 10 (nat n))"

text \<open>
  Sign-aware zero padding to a width, as the format specs \<open>02x\<close> and \<open>03d\<close> do it: the
  zeros go between the sign and the digits.
\<close>

definition zero_pad :: "nat \<Rightarrow> bool \<Rightarrow> string \<Rightarrow> string" where
  "zero_pad w neg ds =
     (if neg then CHR ''-'' # replicate (w - 1 - length ds) CHR ''0'' @ ds
      else replicate (w - length ds) CHR ''0'' @ ds)"

definition format_03d :: "int \<Rightarrow> string" where
  "format_03d n = zero_pad 3 (n < 0) (digits 10 (nat \<bar>n\<bar>))"

definition hex_02x :: "int \<Rightarrow> string" where
  "hex_02x n = zero_pad 2 (n < 0) (digits 16 (nat \<bar>n\<bar>))"

text \<open>
  \<open>'{0:02x}'.format(v)\<close> where \<open>v\<close> comes from \<open>dict.get\<close>: \<open>None\<close> does not take the format
  spec and raises TypeError.
\<close>

definition format_02x :: "int option \<Rightarrow> string io" where
  "format_02x v =
     (case v of
        None \<Rightarrow> raise (TypeError ''unsupported format string passed to NoneType.__format__'')
      | Some n \<Rightarrow> ret (hex_02x n))"

text \<open>\<open>'{}'.format(v)\<close> where \<open>v\<close> comes from \<open>dict.get\<close>.\<close>

definition format_str :: "int option \<Rightarrow> string" where
  "format_str v = (case v of None \<Rightarrow> ''None'' | Some n \<Rightarrow> str_int n)"

text \<open>\<open>s.split(c)\<close> for a one-character separator: never an empty list.\<close>

fun split_on :: "char \<Rightarrow> string \<Rightarrow> string list" where
  "split_on c [] = [[]]"
| "split_on c (x # xs) =
     (if x = c then [] # split_on c xs
      else (case split_on c xs of [] \<Rightarrow> [[x]] | w # ws \<Rightarrow> (x # w) # ws))"

definition startswith :: "string \<Rightarrow> string \<Rightarrow> bool" where
  "startswith s p = (take (length p) s = p)"

text \<open>\<open>s.lower()\<close> on the ASCII letters.\<close>

definition lower_char :: "char \<Rightarrow> char" where
  "lower_char c =
     (case map_of (zip ''ABCDEFGHIJKLMNOPQRSTUVWXYZ'' ''abcdefghijklmnopqrstuvwxyz'') c of
        None \<Rightarrow> c | Some l \<Rightarrow> l)"

definition lower :: "string \<Rightarrow> string" where
  "lower s = map lower_char s"

subsection \<open>Calls to the outside world\<close>

definition log :: "call \<Rightarrow> NDITracker \<Rightarrow> NDITracker" where
  "log c s = s\<lparr>calls := calls s @ [c]\<rparr>"

definition system_call_ping :: "ndicapy \<Rightarrow> string \<Rightarrow> string option \<Rightarrow> int io" where
  "system_call_ping lib param ip =
     (\<lambda>s. (Inr (ping_answer lib (calls s) param ip), log (Ping param ip) s))"

definition ndiDeviceName :: "ndicapy \<Rightarrow> int option \<Rightarrow> string option io" where
  "ndiDeviceName lib n = (\<lambda>s. (Inr (deviceName_answer lib (calls s) n), log (NdiDeviceName n) s))"

definition ndiProbe :: "ndicapy \<Rightarrow> string option \<Rightarrow> int io" where
  "ndiProbe lib name = (\<lambda>s. (Inr (probe_answer lib (calls s) name), log (NdiProbe name) s))"

definition ndiOpen :: "ndicapy \<Rightarrow> string option \<Rightarrow> pydev io" where
  "ndiOpen lib name = (\<lambda>s. (Inr (open_answer lib (calls s) name), log (NdiOpen name) s))"

definition ndiClose :: "pydev \<Rightarrow> unit io" where
  "ndiClose d = (\<lambda>s. (Inr (), log (NdiClose d) s))"

definition ndiOpenNetwork :: "ndicapy \<Rightarrow> string option \<Rightarrow> int option \<Rightarrow> pydev io" where
  "ndiOpenNetwork lib ip p =
     (\<lambda>s. (Inr (openNetwork_answer lib (calls s) ip p), log (NdiOpenNetwork ip p) s))"

definition ndiCloseNetwork :: "pydev \<Rightarrow> unit io" where
  "ndiCloseNetwork d = (\<lambda>s. (Inr (), log (NdiCloseNetwork d) s))"

definition ndiGetPHSRNumberOfHandles :: "ndicapy \<Rightarrow> pydev \<Rightarrow> int io" where
  "ndiGetPHSRNumberOfHandles lib d =
     (\<lambda>s. (Inr (numberOfHandles_answer lib (calls s) d), log (NdiGetPHSRNumberOfHandles d) s))"

definition ndiGetPHRQHandle :: "ndicapy \<Rightarrow> pydev \<Rightarrow> int option \<Rightarrow> int io" where
  "ndiGetPHRQHandle lib d i =
     (\<lambda>s. (Inr (phrqHandle_answer lib (calls s) d i), log (NdiGetPHRQHandle d i) s))"

definition ndiPVWRFromFile :: "pydev \<Rightarrow> int \<Rightarrow> pyval \<Rightarrow> unit io" where
  "ndiPVWRFromFile d h f = (\<lambda>s. (Inr (), log (NdiPVWRFromFile d h f) s))"

definition ndiGetBXTransform :: "ndicapy \<Rightarrow> pydev \<Rightarrow> string option \<Rightarrow> transform io" where
  "ndiGetBXTransform lib d h =
     (\<lambda>s. (Inr (bxTransform_answer lib (calls s) d h), log (NdiGetBXTransform d h) s))"

definition ndiGetBXFrame :: "ndicapy \<Rightarrow> pydev \<Rightarrow> string option \<Rightarrow> int io" where
  "ndiGetBXFrame lib d h =
     (\<lambda>s. (Inr (bxFrame_answer lib (calls s) d h), log (NdiGetBXFrame d h) s))"

definition ndiGetGXTransform :: "ndicapy \<Rightarrow> pydev \<Rightarrow> string option \<Rightarrow> transform io" where
  "ndiGetGXTransform lib d h =
     (\<lambda>s. (Inr (gxTransform_answer lib (calls s) d h), log (NdiGetGXTransform d h) s))"

definition ndiGetGXFrame :: "ndicapy \<Rightarrow> pydev \<Rightarrow> string option \<Rightarrow> int io" where
  "ndiGetGXFrame lib d h =
     (\<lambda>s. (Inr (gxFrame_answer lib (calls s) d h), log (NdiGetGXFrame d h) s))"

definition ndiCommand :: "pydev \<Rightarrow> string \<Rightarrow> unit io" where
  "ndiCommand d c = (\<lambda>s. (Inr (), log (NdiCommand d c) s))"

definition ndiGetError :: "ndicapy \<Rightarrow> pydev \<Rightarrow> int io" where
  "ndiGetError lib d = (\<lambda>s. (Inr (error_answer lib (calls s) d), log (NdiGetError d) s))"

definition ndiVER :: "ndicapy \<Rightarrow> pydev \<Rightarrow> int \<Rightarrow> string io" where
  "ndiVER lib d n = (\<lambda>s. (Inr (ver_answer lib (calls s) d), log (NdiVER d n) s))"

subsection \<open>The methods, in the order of the module\<close>

definition init :: NDITracker where
  "init = \<lparr>device = PyNone, tool_descriptors = [], tracker_type = None, ip_address = None,
     port = None, serial_port = None, ports_to_probe = None, device_firmware_version = None,
     use_bx_transforms = None, state = None, calls = []\<rparr>"

definition set_use_bx_transforms :: "unit io" where
  "set_use_bx_transforms =
     bnd (modify (\<lambda>s. s\<lparr>use_bx_transforms := Some True\<rparr>)) (\<lambda>_.
     bnd (read device_firmware_version) (\<lambda>v.
       py_if (v = Some '' AURORA Rev 007'')
         (modify (\<lambda>s. s\<lparr>use_bx_transforms := Some False\<rparr>))))"

text \<open>
  \<open>line.split(':')[1]\<close>: the index is checked, although a line that starts with
  \<open>'Freeze Tag:'\<close> always splits in two parts at least.
\<close>

definition freeze_tag_line :: "string \<Rightarrow> unit io" where
  "freeze_tag_line line =
     py_if (startswith line ''Freeze Tag:'')
       (case split_on CHR '':'' line of
          a # b # rest \<Rightarrow> modify (\<lambda>s. s\<lparr>device_firmware_version := Some b\<rparr>)
        | _ \<Rightarrow> raise (IndexError ''list index out of range''))"

definition get_firmware_version :: "ndicapy \<Rightarrow> unit io" where
  "get_firmware_version lib =
     bnd (modify (\<lambda>s. s\<lparr>device_firmware_version := Some ''unknown 00.0''\<rparr>)) (\<lambda>_.
     bnd (read tracker_type) (\<lambda>t.
       py_if (t \<noteq> Some ''dummy'')
         (bnd (read device) (\<lambda>d.
          bnd (ndiVER lib d 0) (\<lambda>reply.
            for_each (split_on (CHR 0x0A) reply) freeze_tag_line)))))"

text \<open>
  \<open>_check_for_errors\<close>. \<open>ndiErrorString\<close> is a table from error numbers to texts; it is not
  recorded in the trace.
\<close>

definition check_for_errors :: "ndicapy \<Rightarrow> string \<Rightarrow> unit io" where
  "check_for_errors lib message =
     bnd (read device) (\<lambda>d.
     bnd (ndiGetError lib d) (\<lambda>errnum.
       py_if (errnum \<noteq> NDI_OKAY lib)
         (bnd (read device) (\<lambda>d.
          bnd (ndiClose d) (\<lambda>_.
            raise (IOError (''error when '' @ message @ ''. the error was: ''
                     @ errorString_answer lib errnum)))))))"

definition start_tracking :: "ndicapy \<Rightarrow> unit io" where
  "start_tracking lib =
     bnd (read device) (\<lambda>d.
     bnd (ndiCommand d ''TSTART:'') (\<lambda>_.
     bnd (check_for_errors lib ''starting tracking.'') (\<lambda>_.
       modify (\<lambda>s. s\<lparr>state := Some ''tracking''\<rparr>))))"

definition stop_tracking :: "ndicapy \<Rightarrow> unit io" where
  "stop_tracking lib =
     bnd (read device) (\<lambda>d.
     bnd (ndiCommand d ''TSTOP:'') (\<lambda>_.
     bnd (check_for_errors lib ''stopping tracking.'') (\<lambda>_.
       modify (\<lambda>s. s\<lparr>state := Some ''ready''\<rparr>))))"

text \<open>\<open>'{}'.format(v)\<close> for a field that holds a string or \<open>None\<close>.\<close>

definition format_opt_str :: "string option \<Rightarrow> string" where
  "format_opt_str v = (case v of None \<Rightarrow> ''None'' | Some x \<Rightarrow> x)"

definition connect_network :: "ndicapy \<Rightarrow> unit io" where
  "connect_network lib =
     (let param = (if lower (platform_system lib) = ''windows'' then ''-n'' else ''-c'') in
      bnd (read ip_address) (\<lambda>ip.
      bnd (system_call_ping lib param ip) (\<lambda>rc.
      bnd (if rc = 0
           then bnd (read port) (\<lambda>p.
                bnd (ndiOpenNetwork lib ip p) (\<lambda>d. modify (\<lambda>s. s\<lparr>device := d\<rparr>)))
           else raise (IOError (''Could not find a device at '' @ format_opt_str ip))) (\<lambda>_.
      bnd (read device) (\<lambda>d.
      bnd (py_if (\<not> truthy d)
             (raise (IOError (''Could not connect to network NDI device at ''
                       @ format_opt_str ip)))) (\<lambda>_.
      bnd (read device) (\<lambda>d.
      bnd (ndiCommand d ''INIT:'') (\<lambda>_.
        check_for_errors lib ''Sending INIT command''))))))))"

text \<open>
  The probing loop of \<open>_connect_serial\<close>. Its two local variables are \<open>name\<close> and \<open>result\<close>;
  \<open>result = None\<close> here is the Python variable not yet assigned. \<open>not name\<close> holds for
  \<open>None\<close> and for the empty string. The loop leaves at the first \<open>NDI_OKAY\<close> (\<open>break\<close>).
\<close>

definition falsy_name :: "string option \<Rightarrow> bool" where
  "falsy_name name = (name = None \<or> name = Some [])"

fun probe_loop ::
  "ndicapy \<Rightarrow> int list \<Rightarrow> string option \<times> int option \<Rightarrow> (string option \<times> int option) io" where
  "probe_loop lib [] nr = ret nr"
| "probe_loop lib (port_no # rest) nr =
     bnd (ndiDeviceName lib (Some port_no)) (\<lambda>name.
       if falsy_name name then probe_loop lib rest (name, snd nr)
       else bnd (ndiProbe lib name) (\<lambda>result.
              if result = NDI_OKAY lib then ret (name, Some result)
              else probe_loop lib rest (name, Some result)))"

definition serial_hints :: "int option \<Rightarrow> string" where
  "serial_hints n =
     ''Could not find any NDI device in '' @ format_str n @
     '' serial port candidates checked. Please check the following:'' @ [CHR 0x0A, CHR 0x09] @
     ''1) Is an NDI device connected to your computer?'' @ [CHR 0x0A, CHR 0x09] @
     ''2) Is the NDI device switched on?'' @ [CHR 0x0A, CHR 0x09] @
     ''3) Do you have sufficient privilege to connect to the device? '' @
     ''(e.g. on Linux are you part of the '' @ [CHR 0x22] @ ''dialout'' @ [CHR 0x22] @
     '' group?)''"

definition connect_serial :: "ndicapy \<Rightarrow> unit io" where
  "connect_serial lib =
     bnd (read serial_port) (\<lambda>sp.
     bnd (if sp = Some (- 1)
          then bnd (read ports_to_probe) (\<lambda>n.
                 case n of
                   None \<Rightarrow> raise (TypeError
                     ''NoneType object cannot be interpreted as an integer'')
                 | Some n \<Rightarrow> probe_loop lib (py_range n) (None, None))
          else bnd (ndiDeviceName lib sp) (\<lambda>name.
               bnd (ndiProbe lib name) (\<lambda>result. ret (name, Some result)))) (\<lambda>(name, result).
     case result of
       None \<Rightarrow> raise (UnboundLocalError
         ''cannot access local variable result where it is not associated with a value'')
     | Some result \<Rightarrow>
         bnd (read ports_to_probe) (\<lambda>n.
         bnd (py_if (result \<noteq> NDI_OKAY lib) (raise (IOError (serial_hints n)))) (\<lambda>_.
         bnd (ndiOpen lib name) (\<lambda>d.
         bnd (modify (\<lambda>s. s\<lparr>device := d\<rparr>)) (\<lambda>_.
         bnd (py_if (\<not> truthy d)
                (raise (IOError (''Could not connect to serial NDI device at ''
                          @ format_opt_str name)))) (\<lambda>_.
         bnd (ndiCommand d ''INIT:'') (\<lambda>_.
         bnd (check_for_errors lib ''Sending INIT command'') (\<lambda>_.
         bnd (read device) (\<lambda>d.
           ndiCommand d (''COMM:'' @ str_int (NDI_115200 lib) @ format_03d (NDI_8N1 lib)
                         @ str_int (NDI_NOHANDSHAKE lib))))))))))))"

text \<open>\<open>self.tool_descriptors.append({"description" : romfile})\<close> for each rom file.\<close>

definition append_romfiles :: "string list \<Rightarrow> unit io" where
  "append_romfiles romfiles =
     for_each romfiles (\<lambda>romfile.
       modify (\<lambda>s. s\<lparr>tool_descriptors := tool_descriptors s @
         [\<lparr>description = PyStr romfile, port_handle = None, c_str_port_handle = None\<rparr>]\<rparr>))"

definition romfiles_missing :: string where
  "romfiles_missing =
     ''Configuration for vega and polaris mustcontain a list of '' @ [CHR 0x27] @ ''romfiles''
     @ [CHR 0x27]"

definition config_vega :: "configuration \<Rightarrow> unit io" where
  "config_vega configuration =
     bnd (py_if (cfg_ip_address configuration = None)
            (raise (KeyError (''Configuration for vega must contain'' @ [CHR 0x27]
                      @ ''ip address'' @ [CHR 0x27])))) (\<lambda>_.
     bnd (modify (\<lambda>s. s\<lparr>ip_address := cfg_ip_address configuration\<rparr>)) (\<lambda>_.
     bnd (if cfg_port configuration = None
          then modify (\<lambda>s. s\<lparr>port := Some 8765\<rparr>)
          else modify (\<lambda>s. s\<lparr>port := cfg_port configuration\<rparr>)) (\<lambda>_.
     case cfg_romfiles configuration of
       None \<Rightarrow> raise (KeyError romfiles_missing)
     | Some romfiles \<Rightarrow> append_romfiles romfiles)))"

text \<open>The serial settings that \<open>_config_polaris\<close> and \<open>_config_aurora\<close> both read.\<close>

definition config_serial_settings :: "configuration \<Rightarrow> unit io" where
  "config_serial_settings configuration =
     bnd (if cfg_serial_port configuration \<noteq> None
          then modify (\<lambda>s. s\<lparr>serial_port := cfg_serial_port configuration\<rparr>)
          else modify (\<lambda>s. s\<lparr>serial_port := Some (- 1)\<rparr>)) (\<lambda>_.
     if cfg_ports_to_probe configuration \<noteq> None
     then modify (\<lambda>s. s\<lparr>ports_to_probe := cfg_ports_to_probe configuration\<rparr>)
     else modify (\<lambda>s. s\<lparr>ports_to_probe := Some 20\<rparr>))"

definition config_polaris :: "configuration \<Rightarrow> unit io" where
  "config_polaris configuration =
     (case cfg_romfiles configuration of
        None \<Rightarrow> raise (KeyError romfiles_missing)
      | Some romfiles \<Rightarrow>
          bnd (append_romfiles romfiles) (\<lambda>_. config_serial_settings configuration))"

definition config_aurora :: "configuration \<Rightarrow> unit io" where
  "config_aurora configuration =
     (case cfg_ports_to_use configuration of
        None \<Rightarrow> raise (KeyError (''Configuration for aurora mustcontain a list of ''
                  @ [CHR 0x27] @ ''ports to use'' @ [CHR 0x27]))
      | Some ports \<Rightarrow>
          bnd (for_each ports (\<lambda>p.
                 modify (\<lambda>s. s\<lparr>tool_descriptors := tool_descriptors s @
                   [\<lparr>description = PyInt p, port_handle = Some p,
                     c_str_port_handle = Some (str_int p)\<rparr>]\<rparr>))) (\<lambda>_.
          config_serial_settings configuration))"

definition config_dummy :: "configuration \<Rightarrow> unit io" where
  "config_dummy configuration =
     (case cfg_romfiles configuration of
        None \<Rightarrow> ret ()
      | Some romfiles \<Rightarrow> append_romfiles romfiles)"

definition supported_trackers :: "string list" where
  "supported_trackers = [''vega'', ''polaris'', ''aurora'', ''dummy'']"

definition configure :: "configuration \<Rightarrow> unit io" where
  "configure configuration =
     (case cfg_tracker_type configuration of
        None \<Rightarrow> raise (KeyError (''Configuration must contain '' @ [CHR 0x27]
                  @ ''Tracker type'' @ [CHR 0x27]))
      | Some tracker_type' \<Rightarrow>
          bnd (if List.member supported_trackers tracker_type'
               then modify (\<lambda>s. s\<lparr>tracker_type := Some tracker_type'\<rparr>)
               else raise (ValueError (''Supported trackers are '' @ [CHR 0x27] @ ''vega''
                      @ [CHR 0x27] @ '', '' @ [CHR 0x27] @ ''aurora'' @ [CHR 0x27] @ '', ''
                      @ [CHR 0x27] @ ''polaris'' @ [CHR 0x27] @ '', and '' @ [CHR 0x27]
                      @ ''dummy'' @ [CHR 0x27]))) (\<lambda>_.
          bnd (read tracker_type) (\<lambda>t.
          bnd (py_if (t = Some ''vega'') (config_vega configuration)) (\<lambda>_.
          bnd (read tracker_type) (\<lambda>t.
          bnd (py_if (t = Some ''polaris'') (config_polaris configuration)) (\<lambda>_.
          bnd (read tracker_type) (\<lambda>t.
          bnd (py_if (t = Some ''aurora'') (config_aurora configuration)) (\<lambda>_.
          bnd (read tracker_type) (\<lambda>t.
            py_if (t = Some ''dummy'') (config_dummy configuration))))))))))"

definition close :: "ndicapy \<Rightarrow> unit io" where
  "close lib =
     bnd (read device) (\<lambda>d.
     bnd (py_if (\<not> truthy d) (raise (ValueError ''close called with no NDI device''))) (\<lambda>_.
     bnd (read state) (\<lambda>st.
     bnd (py_if (st = Some ''tracking'') (stop_tracking lib)) (\<lambda>_.
     bnd (read tracker_type) (\<lambda>t.
     bnd (py_if (t = Some ''vega'') (bnd (read device) ndiCloseNetwork)) (\<lambda>_.
     bnd (read tracker_type) (\<lambda>t.
     bnd (py_if (t = Some ''aurora'' \<or> t = Some ''polaris'') (bnd (read device) ndiClose)) (\<lambda>_.
       modify (\<lambda>s. s\<lparr>device := PyNone\<rparr>)))))))))"

text \<open>The first loop of \<open>_read_sroms_from_file\<close>: free the port handles the device reports.\<close>

definition free_port :: "ndicapy \<Rightarrow> int \<Rightarrow> unit io" where
  "free_port lib tool_index =
     bnd (read device) (\<lambda>d.
     bnd (ndiGetPHRQHandle lib d (Some tool_index)) (\<lambda>port_handle'.
     bnd (ndiCommand d (''PHF:'' @ hex_02x port_handle')) (\<lambda>_.
       check_for_errors lib (''freeing port handle '' @ hex_02x tool_index @ ''.''))))"

text \<open>
  The second loop: the dict of the tool at index \<open>i\<close> is updated in place, then the rom
  file is sent.
\<close>

definition load_srom :: "ndicapy \<Rightarrow> nat \<Rightarrow> unit io" where
  "load_srom lib i =
     bnd (read device) (\<lambda>d.
     bnd (ndiCommand d ''PHRQ:*********1****'') (\<lambda>_.
     bnd (ndiGetPHRQHandle lib d None) (\<lambda>port_handle'.
     bnd (modify (\<lambda>s. s\<lparr>tool_descriptors := (tool_descriptors s)
            [i := (tool_descriptors s ! i)\<lparr>port_handle := Some port_handle'\<rparr>]\<rparr>)) (\<lambda>_.
     bnd (modify (\<lambda>s. s\<lparr>tool_descriptors := (tool_descriptors s)
            [i := (tool_descriptors s ! i)\<lparr>c_str_port_handle := Some (str_int port_handle')\<rparr>]\<rparr>))
       (\<lambda>_.
     bnd (check_for_errors lib (''getting srom file port handle '' @ str_int port_handle'
            @ ''.'')) (\<lambda>_.
     bnd (read (\<lambda>s. description (tool_descriptors s ! i))) (\<lambda>file.
     bnd (read device) (\<lambda>d.
     bnd (ndiPVWRFromFile d port_handle' file) (\<lambda>_.
       check_for_errors lib (''setting srom file port handle '' @ str_int port_handle'
         @ ''.''))))))))))"

definition read_sroms_from_file :: "ndicapy \<Rightarrow> unit io" where
  "read_sroms_from_file lib =
     bnd (read device) (\<lambda>d.
     bnd (py_if (\<not> truthy d) (raise (ValueError ''read srom called with no NDI device''))) (\<lambda>_.
     bnd (stop_tracking lib) (\<lambda>_.
     bnd (read device) (\<lambda>d.
     bnd (ndiCommand d ''PHSR:01'') (\<lambda>_.
     bnd (ndiGetPHSRNumberOfHandles lib d) (\<lambda>number_of_tools.
     bnd (for_each (py_range number_of_tools) (free_port lib)) (\<lambda>_.
     bnd (read (\<lambda>s. length (tool_descriptors s))) (\<lambda>n.
     bnd (for_each [0..<n] (load_srom lib)) (\<lambda>_.
     bnd (read device) (\<lambda>d.
       ndiCommand d ''PHSR:01''))))))))))"

definition initialise_port :: "ndicapy \<Rightarrow> tool \<Rightarrow> unit io" where
  "initialise_port lib tool =
     bnd (format_02x (port_handle tool)) (\<lambda>h.
     bnd (read device) (\<lambda>d.
     bnd (ndiCommand d (''PINIT:'' @ h)) (\<lambda>_.
     bnd (format_02x (port_handle tool)) (\<lambda>h.
       check_for_errors lib (''Initialising port handle '' @ h @ ''.'')))))"

definition initialise_ports :: "ndicapy \<Rightarrow> unit io" where
  "initialise_ports lib =
     bnd (read device) (\<lambda>d.
     bnd (py_if (\<not> truthy d) (raise (ValueError ''init ports called with no NDI device''))) (\<lambda>_.
     bnd (ndiCommand d ''PHSR:02'') (\<lambda>_.
     bnd (read tool_descriptors) (\<lambda>tools.
       for_each tools (initialise_port lib)))))"

definition enable_tool :: "ndicapy \<Rightarrow> tool \<Rightarrow> unit io" where
  "enable_tool lib tool =
     (let mode = ''D'' in
      bnd (format_02x (port_handle tool)) (\<lambda>h.
      bnd (read device) (\<lambda>d.
      bnd (ndiCommand d (''PENA:'' @ h @ mode)) (\<lambda>_.
        check_for_errors lib (''Enabling port handle '' @ format_str (port_handle tool)
          @ ''.'')))))"

definition enable_tools :: "ndicapy \<Rightarrow> unit io" where
  "enable_tools lib =
     bnd (read device) (\<lambda>d.
     bnd (py_if (\<not> truthy d) (raise (ValueError ''enable tools called with no NDI device''))) (\<lambda>_.
     bnd (ndiCommand d ''PHSR:03'') (\<lambda>_.
     bnd (read tool_descriptors) (\<lambda>tools.
       for_each tools (enable_tool lib)))))"

definition connect_vega :: "ndicapy \<Rightarrow> unit io" where
  "connect_vega lib =
     bnd (connect_network lib) (\<lambda>_.
     bnd (read_sroms_from_file lib) (\<lambda>_.
     bnd (initialise_ports lib) (\<lambda>_.
       enable_tools lib)))"

definition connect_polaris :: "ndicapy \<Rightarrow> unit io" where
  "connect_polaris lib =
     bnd (connect_serial lib) (\<lambda>_.
     bnd (read_sroms_from_file lib) (\<lambda>_.
     bnd (initialise_ports lib) (\<lambda>_.
       enable_tools lib)))"

definition connect_aurora :: "ndicapy \<Rightarrow> unit io" where
  "connect_aurora lib =
     bnd (connect_serial lib) (\<lambda>_.
     bnd (initialise_ports lib) (\<lambda>_.
       enable_tools lib))"

definition connect :: "ndicapy \<Rightarrow> configuration \<Rightarrow> unit io" where
  "connect lib configuration =
     bnd (configure configuration) (\<lambda>_.
     bnd (read tracker_type) (\<lambda>t.
     bnd (py_if (t = Some ''vega'') (connect_vega lib)) (\<lambda>_.
     bnd (read tracker_type) (\<lambda>t.
     bnd (py_if (t = Some ''aurora'') (connect_aurora lib)) (\<lambda>_.
     bnd (read tracker_type) (\<lambda>t.
     bnd (py_if (t = Some ''polaris'') (connect_polaris lib)) (\<lambda>_.
     bnd (read tracker_type) (\<lambda>t.
     bnd (py_if (t = Some ''dummy'') (modify (\<lambda>s. s\<lparr>device := PyTrue\<rparr>))) (\<lambda>_.
     bnd (get_firmware_version lib) (\<lambda>_.
       set_use_bx_transforms))))))))))"

subsection \<open>Frames\<close>

text \<open>
  The numpy arrays: \<open>full((n, m), v)\<close> is \<open>n\<close> rows of \<open>m\<close> copies of \<open>v\<close>. The loops below
  index inside the array only.
\<close>

definition full :: "nat \<Rightarrow> nat \<Rightarrow> 'a \<Rightarrow> 'a list list" where
  "full n m v = replicate n (replicate m v)"

text \<open>\<open>a[i, j] = v\<close>\<close>

definition set_item :: "'a list list \<Rightarrow> nat \<Rightarrow> nat \<Rightarrow> 'a \<Rightarrow> 'a list list" where
  "set_item a i j v = a[i := (a ! i)[j := v]]"

text \<open>
  \<open>a[i, lo:hi] = vs\<close> for a tuple \<open>vs\<close>: a tuple of the length of the slice is copied, a
  tuple of one element is broadcast, any other length raises ValueError.
\<close>

definition set_slice ::
  "'a list list \<Rightarrow> nat \<Rightarrow> nat \<Rightarrow> nat \<Rightarrow> 'a list \<Rightarrow> error + 'a list list" where
  "set_slice a i lo hi vs =
     (if length vs = hi - lo
      then Inr (a[i := take lo (a ! i) @ vs @ drop hi (a ! i)])
      else if length vs = 1
      then Inr (a[i := take lo (a ! i) @ replicate (hi - lo) (hd vs) @ drop hi (a ! i)])
      else Inl (ValueError ''could not broadcast input array''))"

text \<open>
  A value stored into the float array: \<open>None\<close> (a key that \<open>dict.get\<close> does not find) is
  stored as not-a-number, an int as its value.
\<close>

definition as_float :: "int option \<Rightarrow> cell" where
  "as_float v = (case v of None \<Rightarrow> NaN | Some n \<Rightarrow> Num (of_int n))"

text \<open>
  The body of the loop of \<open>_get_frame_bx\<close> for a tracker that is not the dummy;
  \<open>timestamp\<close> is what \<open>time()\<close> returned.
\<close>

definition bx_row :: "ndicapy \<Rightarrow> real \<Rightarrow> nat \<Rightarrow> cell list list \<Rightarrow> cell list list io" where
  "bx_row lib timestamp i return_array =
     bnd (read (\<lambda>s. tool_descriptors s ! i)) (\<lambda>tool.
     bnd (read device) (\<lambda>d.
     bnd (ret (set_item return_array i 0 (as_float (port_handle tool)))) (\<lambda>return_array.
     bnd (ret (set_item return_array i 1 (Num timestamp))) (\<lambda>return_array.
     bnd (ndiGetBXFrame lib d (c_str_port_handle tool)) (\<lambda>frame.
     bnd (ret (set_item return_array i 2 (Num (of_int frame)))) (\<lambda>return_array.
     bnd (ndiGetBXTransform lib d (c_str_port_handle tool)) (\<lambda>transform.
       case transform of
         MISSING \<Rightarrow> ret return_array
       | DISABLED \<Rightarrow> ret return_array
       | Transform vs \<Rightarrow>
           (case set_slice return_array i 3 11 vs of
              Inl e \<Rightarrow> raise e
            | Inr return_array \<Rightarrow> ret return_array))))))))"

definition gx_row :: "ndicapy \<Rightarrow> real \<Rightarrow> nat \<Rightarrow> cell list list \<Rightarrow> cell list list io" where
  "gx_row lib timestamp i return_array =
     bnd (read (\<lambda>s. tool_descriptors s ! i)) (\<lambda>tool.
     bnd (read device) (\<lambda>d.
     bnd (ret (set_item return_array i 0 (as_float (port_handle tool)))) (\<lambda>return_array.
     bnd (ret (set_item return_array i 1 (Num timestamp))) (\<lambda>return_array.
     bnd (ndiGetGXFrame lib d (c_str_port_handle tool)) (\<lambda>frame.
     bnd (ret (set_item return_array i 2 (Num (of_int frame)))) (\<lambda>return_array.
     bnd (ndiGetGXTransform lib d (c_str_port_handle tool)) (\<lambda>transform.
       case transform of
         MISSING \<Rightarrow> ret return_array
       | DISABLED \<Rightarrow> ret return_array
       | Transform vs \<Rightarrow>
           (case set_slice return_array i 3 11 vs of
              Inl e \<Rightarrow> raise e
            | Inr return_array \<Rightarrow> ret return_array))))))))"

text \<open>The body of the loop for the dummy tracker.\<close>

definition dummy_row :: "real \<Rightarrow> nat \<Rightarrow> cell list list \<Rightarrow> cell list list io" where
  "dummy_row timestamp i return_array = ret (set_item return_array i 1 (Num timestamp))"

definition get_frame_bx :: "ndicapy \<Rightarrow> real \<Rightarrow> cell list list io" where
  "get_frame_bx lib timestamp =
     bnd (read (\<lambda>s. length (tool_descriptors s))) (\<lambda>n.
     bnd (ret (full n 11 NaN)) (\<lambda>return_array.
     bnd (read tracker_type) (\<lambda>t.
       if \<not> t = Some ''dummy''
       then bnd (read device) (\<lambda>d.
            bnd (ndiCommand d ''BX:0801'') (\<lambda>_.
              fold_io [0..<n] (bx_row lib timestamp) return_array))
       else fold_io [0..<n] (dummy_row timestamp) return_array)))"

definition get_frame_gx :: "ndicapy \<Rightarrow> real \<Rightarrow> cell list list io" where
  "get_frame_gx lib timestamp =
     bnd (read (\<lambda>s. length (tool_descriptors s))) (\<lambda>n.
     bnd (ret (full n 11 NaN)) (\<lambda>return_array.
     bnd (read tracker_type) (\<lambda>t.
       if \<not> t = Some ''dummy''
       then bnd (read device) (\<lambda>d.
            bnd (ndiCommand d ''GX:0801'') (\<lambda>_.
              fold_io [0..<n] (gx_row lib timestamp) return_array))
       else fold_io [0..<n] (dummy_row timestamp) return_array)))"

text \<open>\<open>if self._use_bx_transforms\<close>: \<open>None\<close> (never connected) and \<open>False\<close> take the else.\<close>

definition get_frame :: "ndicapy \<Rightarrow> real \<Rightarrow> cell list list io" where
  "get_frame lib timestamp =
     bnd (read use_bx_transforms) (\<lambda>b.
       if b = Some True then get_frame_bx lib timestamp else get_frame_gx lib timestamp)"

definition description_row :: "nat \<Rightarrow> pyval list list \<Rightarrow> pyval list list io" where
  "description_row i descriptions =
     bnd (ret (set_item descriptions i 0 (PyInt (int i)))) (\<lambda>descriptions.
     bnd (read (\<lambda>s. description (tool_descriptors s ! i))) (\<lambda>d.
       ret (set_item descriptions i 1 d)))"

definition get_tool_descriptions :: "pyval list list io" where
  "get_tool_descriptions =
     bnd (read (\<lambda>s. length (tool_descriptors s))) (\<lambda>n.
     bnd (ret (full n 2 (PyStr ''empty''))) (\<lambda>descriptions.
       fold_io [0..<n] description_row descriptions))"

subsection \<open>Observations that the statements use\<close>

text \<open>
  \<open>get_frame\<close> takes the text protocol (\<open>_get_frame_gx\<close>) exactly when
  \<open>_use_bx_transforms\<close> is not \<open>True\<close>.
\<close>

definition preferTextFrames :: "NDITracker \<Rightarrow> bool" where
  "preferTextFrames s = (use_bx_transforms s \<noteq> Some True)"

definition uses_bx :: "NDITracker \<Rightarrow> bool" where
  "uses_bx s = (use_bx_transforms s = Some True)"

text \<open>The two queries that the loop of a frame makes for each tool, in their order.\<close>

definition tool_calls ::
  "(pydev \<Rightarrow> string option \<Rightarrow> call) \<Rightarrow> (pydev \<Rightarrow> string option \<Rightarrow> call) \<Rightarrow> pydev \<Rightarrow>
   tool list \<Rightarrow> call list" where
  "tool_calls F T d tools =
     concat (map (\<lambda>t. [F d (c_str_port_handle t), T d (c_str_port_handle t)]) tools)"

text \<open>The frame request that \<open>get_frame\<close> sends first for a tracker that is not the dummy.\<close>

definition frame_request :: "NDITracker \<Rightarrow> call" where
  "frame_request s = NdiCommand (device s) (if uses_bx s then ''BX:0801'' else ''GX:0801'')"

text \<open>The trace when the loop of \<open>get_frame\<close>, called on \<open>s\<close>, reaches the tool at index \<open>i\<close>.\<close>

definition calls_at :: "NDITracker \<Rightarrow> nat \<Rightarrow> call list" where
  "calls_at s i = calls s @ [frame_request s] @
     (if uses_bx s
      then tool_calls NdiGetBXFrame NdiGetBXTransform (device s) (take i (tool_descriptors s))
      else tool_calls NdiGetGXFrame NdiGetGXTransform (device s) (take i (tool_descriptors s)))"

text \<open>What the device answers in that call of \<open>get_frame\<close> for the tool at index \<open>i\<close>.\<close>

definition frame_number :: "ndicapy \<Rightarrow> NDITracker \<Rightarrow> nat \<Rightarrow> int" where
  "frame_number lib s i =
     (let d = device s; c = c_str_port_handle (tool_descriptors s ! i) in
      if uses_bx s then bxFrame_answer lib (calls_at s i) d c
      else gxFrame_answer lib (calls_at s i) d c)"

definition reported_transform :: "ndicapy \<Rightarrow> NDITracker \<Rightarrow> nat \<Rightarrow> transform" where
  "reported_transform lib s i =
     (let d = device s; c = c_str_port_handle (tool_descriptors s ! i) in
      if uses_bx s then bxTransform_answer lib (calls_at s i @ [NdiGetBXFrame d c]) d c
      else gxTransform_answer lib (calls_at s i @ [NdiGetGXFrame d c]) d c)"

text \<open>
  The eight cells that the loop body leaves in columns 3 to 10, and the whole row, when
  the body does not raise.
\<close>

definition pose_block :: "transform \<Rightarrow> cell list" where
  "pose_block t =
     (case t of
        MISSING \<Rightarrow> replicate 8 NaN
      | DISABLED \<Rightarrow> replicate 8 NaN
      | Transform vs \<Rightarrow> if length vs = 8 then vs else replicate 8 (hd vs))"

definition row_of :: "tool \<Rightarrow> real \<Rightarrow> int \<Rightarrow> transform \<Rightarrow> cell list" where
  "row_of tool timestamp frame t =
     [as_float (port_handle tool), Num timestamp, Num (of_int frame)] @ pose_block t"

text \<open>
  \<open>bx_row\<close> and \<open>gx_row\<close> differ in the two queries only; \<open>frame_row\<close> is their common
  shape, with the queries as parameters, so that one proof serves both.
\<close>

definition frame_row ::
  "(call list \<Rightarrow> pydev \<Rightarrow> string option \<Rightarrow> int) \<Rightarrow>
   (call list \<Rightarrow> pydev \<Rightarrow> string option \<Rightarrow> transform) \<Rightarrow>
   (pydev \<Rightarrow> string option \<Rightarrow> call) \<Rightarrow> (pydev \<Rightarrow> string option \<Rightarrow> call) \<Rightarrow>
   real \<Rightarrow> nat \<Rightarrow> cell list list \<Rightarrow> cell list list io" where
  "frame_row fa ta F T timestamp i return_array =
     bnd (read (\<lambda>s. tool_descriptors s ! i)) (\<lambda>tool.
     bnd (read device) (\<lambda>d.
     bnd (ret (set_item return_array i 0 (as_float (port_handle tool)))) (\<lambda>return_array.
     bnd (ret (set_item return_array i 1 (Num timestamp))) (\<lambda>return_array.
     bnd (\<lambda>s. (Inr (fa (calls s) d (c_str_port_handle tool)),
                log (F d (c_str_port_handle tool)) s)) (\<lambda>frame.
     bnd (ret (set_item return_array i 2 (Num (of_int frame)))) (\<lambda>return_array.
     bnd (\<lambda>s. (Inr (ta (calls s) d (c_str_port_handle tool)),
                log (T d (c_str_port_handle tool)) s)) (\<lambda>transform.
       case transform of
         MISSING \<Rightarrow> ret return_array
       | DISABLED \<Rightarrow> ret return_array
       | Transform vs \<Rightarrow>
           (case set_slice return_array i 3 11 vs of
              Inl e \<Rightarrow> raise e
            | Inr return_array \<Rightarrow> ret return_array))))))))"

definition calls_before ::
  "(pydev \<Rightarrow> string option \<Rightarrow> call) \<Rightarrow> (pydev \<Rightarrow> string option \<Rightarrow> call) \<Rightarrow> NDITracker \<Rightarrow>
   nat \<Rightarrow> call list" where
  "calls_before F T s i = calls s @ tool_calls F T (device s) (take i (tool_descriptors s))"

definition loop_row ::
  "(call list \<Rightarrow> pydev \<Rightarrow> string option \<Rightarrow> int) \<Rightarrow>
   (call list \<Rightarrow> pydev \<Rightarrow> string option \<Rightarrow> transform) \<Rightarrow>
   (pydev \<Rightarrow> string option \<Rightarrow> call) \<Rightarrow> (pydev \<Rightarrow> string option \<Rightarrow> call) \<Rightarrow>
   real \<Rightarrow> NDITracker \<Rightarrow> nat \<Rightarrow> cell list" where
  "loop_row fa ta F T ts s i =
     (let tool = tool_descriptors s ! i; d = device s; c = c_str_port_handle tool in
      row_of tool ts (fa (calls_before F T s i) d c) (ta (calls_before F T s i @ [F d c]) d c))"

text \<open>The descriptions of the tools, in the order of the list.\<close>

definition descriptions :: "NDITracker \<Rightarrow> pyval list" where
  "descriptions s = map description (tool_descriptors s)"

text \<open>The dicts that \<open>_configure\<close> appends for a configuration that it accepts.\<close>

definition new_tools :: "configuration \<Rightarrow> tool list" where
  "new_tools configuration =
     (if cfg_tracker_type configuration = Some ''aurora''
      then map (\<lambda>p. \<lparr>description = PyInt p, port_handle = Some p,
                       c_str_port_handle = Some (str_int p)\<rparr>)
             (case cfg_ports_to_use configuration of None \<Rightarrow> [] | Some ports \<Rightarrow> ports)
      else map (\<lambda>romfile. \<lparr>description = PyStr romfile, port_handle = None,
                             c_str_port_handle = None\<rparr>)
             (case cfg_romfiles configuration of None \<Rightarrow> [] | Some romfiles \<Rightarrow> romfiles))"

text \<open>A method leaves an observation of the instance as it was.\<close>

definition preserves :: "(NDITracker \<Rightarrow> 'b) \<Rightarrow> 'a io \<Rightarrow> bool" where
  "preserves f m = (\<forall>s. f (snd (m s)) = f s)"

subsection \<open>Example devices, configurations and instances\<close>

text \<open>A device that is there and accepts every command.\<close>

definition example_device :: ndicapy where
  "example_device = \<lparr>NDI_OKAY = 0, NDI_115200 = 5, NDI_8N1 = 0, NDI_NOHANDSHAKE = 0,
     platform_system = ''Linux'',
     ping_answer = (\<lambda>cs param ip. 0),
     deviceName_answer = (\<lambda>cs n. Some ''/dev/ttyS0''),
     probe_answer = (\<lambda>cs name. 0),
     open_answer = (\<lambda>cs name. Handle 1),
     openNetwork_answer = (\<lambda>cs ip p. Handle 1),
     numberOfHandles_answer = (\<lambda>cs d. 0),
     phrqHandle_answer = (\<lambda>cs d i. 10),
     bxTransform_answer = (\<lambda>cs d c. if c = Some ''10'' then MISSING
        else Transform [Num 1, Num 2, Num 3, Num 1, Num 0, Num 0, Num 0, Num 1]),
     bxFrame_answer = (\<lambda>cs d c. 7),
     gxTransform_answer = (\<lambda>cs d c. DISABLED),
     gxFrame_answer = (\<lambda>cs d c. 7),
     error_answer = (\<lambda>cs d. 0),
     errorString_answer = (\<lambda>n. ''error''),
     ver_answer = (\<lambda>cs d. ''Freeze Tag: Vega 1.0'')\<rparr>"

text \<open>The same device with an error register that never reads \<open>NDI_OKAY\<close>.\<close>

definition example_faulty :: ndicapy where
  "example_faulty = example_device\<lparr>error_answer := (\<lambda>cs d. 1)\<rparr>"

text \<open>
  The same device, except that the error register does not read \<open>NDI_OKAY\<close> when the
  last command was a \<open>PENA\<close>.
\<close>

definition example_enable_fails :: ndicapy where
  "example_enable_fails = example_device\<lparr>error_answer :=
     (\<lambda>cs d. case rev cs of
                NdiCommand d' c # before \<Rightarrow> if take 5 c = ''PENA:'' then 1 else 0
              | _ \<Rightarrow> 0)\<rparr>"

text \<open>The same device with a version reply that has no \<open>Freeze Tag\<close> line.\<close>

definition example_untagged :: ndicapy where
  "example_untagged = example_device\<lparr>ver_answer := (\<lambda>cs d. ''NDI tracker'')\<rparr>"

definition example_vega :: configuration where
  "example_vega = \<lparr>cfg_tracker_type = Some ''vega'', cfg_ip_address = Some ''10.0.0.1'',
     cfg_port = None, cfg_romfiles = Some [''t.rom''], cfg_serial_port = None,
     cfg_ports_to_probe = None, cfg_ports_to_use = None\<rparr>"

definition example_dummy :: configuration where
  "example_dummy = \<lparr>cfg_tracker_type = Some ''dummy'', cfg_ip_address = None,
     cfg_port = None, cfg_romfiles = Some [''a.rom'', ''b.rom''], cfg_serial_port = None,
     cfg_ports_to_probe = None, cfg_ports_to_use = None\<rparr>"

text \<open>A polaris configuration that asks for no serial port to be probed.\<close>

definition example_polaris_zero :: configuration where
  "example_polaris_zero = \<lparr>cfg_tracker_type = Some ''polaris'', cfg_ip_address = None,
     cfg_port = None, cfg_romfiles = Some [''t.rom''], cfg_serial_port = None,
     cfg_ports_to_probe = Some 0, cfg_ports_to_use = None\<rparr>"

text \<open>An instance that tracks two tools on a serial device.\<close>

definition example_tracking :: NDITracker where
  "example_tracking = init\<lparr>device := Handle 1,
     tool_descriptors :=
       [\<lparr>description = PyStr ''a.rom'', port_handle = Some 10, c_str_port_handle = Some ''10''\<rparr>,
        \<lparr>description = PyStr ''b.rom'', port_handle = Some 11, c_str_port_handle = Some ''11''\<rparr>],
     tracker_type := Some ''polaris'', serial_port := Some (- 1), ports_to_probe := Some 20,
     device_firmware_version := Some ''unknown 00.0'', use_bx_transforms := Some True,
     state := Some ''tracking''\<rparr>"

definition example_frame :: "cell list list" where
  "example_frame =
     [[Num 10, Num 5, Num 7, NaN, NaN, NaN, NaN, NaN, NaN, NaN, NaN],
      [Num 11, Num 5, Num 7, Num 1, Num 2, Num 3, Num 1, Num 0, Num 0, Num 0, Num 1]]"

text \<open>The instance after a connection to the example device over the network.\<close>

definition example_connected :: NDITracker where
  "example_connected = snd (connect example_device example_vega init)"

text \<open>
  The same device, except that the error register does not read \<open>NDI_OKAY\<close> after a
  \<open>TSTOP:\<close> that follows a \<open>TSTART:\<close>; and the instance that has connected to this device
  over the network and started tracking.
\<close>

definition example_stop_rejected :: ndicapy where
  "example_stop_rejected = example_device\<lparr>error_answer :=
     (\<lambda>cs d. case rev cs of
                NdiCommand d' c # earlier \<Rightarrow>
                  if c = ''TSTOP:'' \<and> List.member earlier (NdiCommand d' ''TSTART:'') then 1 else 0
              | _ \<Rightarrow> 0)\<rparr>"

definition example_tracking_vega :: NDITracker where
  "example_tracking_vega =
     snd (start_tracking example_stop_rejected
            (snd (connect example_stop_rejected example_vega init)))"

text \<open>A second dummy configuration, and the instance after both have been connected.\<close>

definition example_dummy_more :: configuration where
  "example_dummy_more = example_dummy\<lparr>cfg_romfiles := Some [''c.rom'']\<rparr>"

definition example_twice :: NDITracker where
  "example_twice =
     snd (connect example_device example_dummy_more (snd (connect example_device example_dummy init)))"


section \<open>Properties\<close>

subsection \<open>Sequencing and loops\<close>

lemmas io_defs = ret_def raise_def bnd_def modify_def read_def py_if_def log_def

lemmas ndi_defs = system_call_ping_def ndiDeviceName_def ndiProbe_def ndiOpen_def ndiClose_def
  ndiOpenNetwork_def ndiCloseNetwork_def ndiGetPHSRNumberOfHandles_def ndiGetPHRQHandle_def
  ndiPVWRFromFile_def ndiGetBXTransform_def ndiGetBXFrame_def ndiGetGXTransform_def
  ndiGetGXFrame_def ndiCommand_def ndiGetError_def ndiVER_def

lemma bnd_assoc: "bnd (bnd m f) g = bnd m (\<lambda>x. bnd (f x) g)"
  by (auto simp add: bnd_def split: prod.splits sum.splits)

lemma bnd_ret_right: "bnd m ret = m"
  by (auto simp add: bnd_def ret_def split: prod.splits sum.splits)

lemma fold_io_append: "fold_io (xs @ ys) body a = bnd (fold_io xs body a) (fold_io ys body)"
proof (induction xs arbitrary: a)
  case Nil
  show ?case by (simp add: bnd_def ret_def)
next
  case (Cons x xs)
  have "(\<lambda>a. fold_io (xs @ ys) body a) = (\<lambda>a. bnd (fold_io xs body a) (fold_io ys body))"
    using Cons.IH by (intro ext) simp
  then show ?case by (simp add: bnd_assoc)
qed

lemma fold_io_snoc: "fold_io (xs @ [x]) body a = bnd (fold_io xs body a) (body x)"
proof -
  have "fold_io [] body = ret"
    by (intro ext) simp
  then have "fold_io [x] body = body x"
    by (intro ext) (simp add: bnd_ret_right)
  then show ?thesis by (simp add: fold_io_append)
qed

text \<open>An invariant of a loop over \<open>range(n)\<close> holds when the loop ends without a raise.\<close>

lemma fold_io_upt_invariant:
  assumes start: "P 0 a s"
    and step: "\<And>i b t b' t'. i < n \<Longrightarrow> P i b t \<Longrightarrow> body i b t = (Inr b', t') \<Longrightarrow> P (Suc i) b' t'"
    and run: "fold_io [0..<n] body a s = (Inr a', s')"
  shows "P n a' s'"
  using step run
proof (induction n arbitrary: a' s')
  case 0
  with start show ?case by (simp add: ret_def)
next
  case (Suc n)
  from Suc.prems(2) obtain b t where mid: "fold_io [0..<n] body a s = (Inr b, t)"
    and last: "body n b t = (Inr a', s')"
    by (auto simp add: fold_io_snoc bnd_def split: prod.splits sum.splits)
  have "P n b t"
    using Suc.IH [OF _ mid] Suc.prems(1) by (metis less_Suc_eq)
  then show ?case using Suc.prems(1) [of n b t a' s'] last by simp
qed

lemma append_tools:
  "for_each xs (\<lambda>x. modify (\<lambda>s. s\<lparr>tool_descriptors := tool_descriptors s @ [g x]\<rparr>)) s
     = (Inr (), s\<lparr>tool_descriptors := tool_descriptors s @ map g xs\<rparr>)"
  by (induction xs arbitrary: s) (simp_all add: io_defs)

subsection \<open>Arrays\<close>

lemma set_item_at:
  "length xs = i \<Longrightarrow> set_item (xs @ r # rest) i j v = xs @ r[j := v] # rest"
  by (simp add: set_item_def nth_append list_update_append)

lemma set_slice_at:
  "length xs = i \<Longrightarrow> set_slice (xs @ r # rest) i lo hi vs =
     (if length vs = hi - lo then Inr (xs @ (take lo r @ vs @ drop hi r) # rest)
      else if length vs = 1
      then Inr (xs @ (take lo r @ replicate (hi - lo) (hd vs) @ drop hi r) # rest)
      else Inl (ValueError ''could not broadcast input array''))"
  by (simp add: set_slice_def nth_append list_update_append)

lemma replicate_11: "replicate 11 x = [x, x, x, x, x, x, x, x, x, x, x]"
  by (simp add: numeral_eq_Suc)

lemma replicate_8: "replicate 8 x = [x, x, x, x, x, x, x, x]"
  by (simp add: numeral_eq_Suc)

lemma length_pose_block: "length (pose_block t) = 8"
  by (simp add: pose_block_def split: transform.splits)

subsection \<open>The firmware version\<close>

lemma set_use_bx_transforms_result:
  "set_use_bx_transforms s =
     (Inr (), s\<lparr>use_bx_transforms :=
        Some (device_firmware_version s \<noteq> Some '' AURORA Rev 007'')\<rparr>)"
  by (simp add: set_use_bx_transforms_def io_defs)

lemma for_each_freeze_none:
  "list_all (\<lambda>l. \<not> startswith l ''Freeze Tag:'') ls \<Longrightarrow>
   for_each ls freeze_tag_line s = (Inr (), s)"
  by (induction ls arbitrary: s) (simp_all add: freeze_tag_line_def io_defs)

lemma get_firmware_version_dummy:
  "tracker_type s = Some ''dummy'' \<Longrightarrow>
   get_firmware_version lib s = (Inr (), s\<lparr>device_firmware_version := Some ''unknown 00.0''\<rparr>)"
  by (simp add: get_firmware_version_def io_defs)

lemma get_firmware_version_no_tag:
  "tracker_type s \<noteq> Some ''dummy'' \<Longrightarrow>
   list_all (\<lambda>l. \<not> startswith l ''Freeze Tag:'')
     (split_on (CHR 0x0A) (ver_answer lib (calls s) (device s))) \<Longrightarrow>
   get_firmware_version lib s =
     (Inr (), s\<lparr>device_firmware_version := Some ''unknown 00.0'',
                calls := calls s @ [NdiVER (device s) 0]\<rparr>)"
  by (simp add: get_firmware_version_def io_defs ndi_defs for_each_freeze_none)

subsection \<open>Configuration errors\<close>

lemma connect_no_tracker_type:
  "cfg_tracker_type cfg = None \<Longrightarrow>
   connect lib cfg s = (Inl (KeyError (''Configuration must contain '' @ [CHR 0x27]
     @ ''Tracker type'' @ [CHR 0x27])), s)"
  by (simp add: connect_def configure_def io_defs)

lemma connect_unsupported:
  "cfg_tracker_type cfg = Some t \<Longrightarrow> \<not> List.member supported_trackers t \<Longrightarrow>
   \<exists>m. connect lib cfg s = (Inl (ValueError m), s)"
  by (simp add: connect_def configure_def io_defs)

lemma connect_vega_missing:
  "cfg_tracker_type cfg = Some ''vega'' \<Longrightarrow> cfg_ip_address cfg = None \<or> cfg_romfiles cfg = None \<Longrightarrow>
   \<exists>m. fst (connect lib cfg s) = Inl (KeyError m) \<and> calls (snd (connect lib cfg s)) = calls s
     \<and> device (snd (connect lib cfg s)) = device s
     \<and> tool_descriptors (snd (connect lib cfg s)) = tool_descriptors s"
  by (auto simp add: connect_def configure_def config_vega_def supported_trackers_def io_defs)

lemma connect_polaris_missing:
  "cfg_tracker_type cfg = Some ''polaris'' \<Longrightarrow> cfg_romfiles cfg = None \<Longrightarrow>
   connect lib cfg s = (Inl (KeyError romfiles_missing), s\<lparr>tracker_type := Some ''polaris''\<rparr>)"
  by (auto simp add: connect_def configure_def config_polaris_def supported_trackers_def io_defs)

lemma connect_aurora_missing:
  "cfg_tracker_type cfg = Some ''aurora'' \<Longrightarrow> cfg_ports_to_use cfg = None \<Longrightarrow>
   \<exists>m. connect lib cfg s = (Inl (KeyError m), s\<lparr>tracker_type := Some ''aurora''\<rparr>)"
  by (auto simp add: connect_def configure_def config_aurora_def supported_trackers_def io_defs)

subsection \<open>The error check, stopping and closing\<close>

lemma check_for_errors_result:
  "check_for_errors lib message s =
     (if error_answer lib (calls s) (device s) \<noteq> NDI_OKAY lib
      then (Inl (IOError (''error when '' @ message @ ''. the error was: ''
                     @ errorString_answer lib (error_answer lib (calls s) (device s)))),
            s\<lparr>calls := calls s @ [NdiGetError (device s), NdiClose (device s)]\<rparr>)
      else (Inr (), s\<lparr>calls := calls s @ [NdiGetError (device s)]\<rparr>))"
  by (simp add: check_for_errors_def io_defs ndi_defs)

lemma stop_tracking_result:
  "stop_tracking lib s =
     (if error_answer lib (calls s @ [NdiCommand (device s) ''TSTOP:'']) (device s) \<noteq> NDI_OKAY lib
      then (Inl (IOError (''error when stopping tracking.. the error was: ''
                     @ errorString_answer lib
                         (error_answer lib (calls s @ [NdiCommand (device s) ''TSTOP:'']) (device s)))),
            s\<lparr>calls := calls s @ [NdiCommand (device s) ''TSTOP:'', NdiGetError (device s),
                                   NdiClose (device s)]\<rparr>)
      else (Inr (), s\<lparr>state := Some ''ready'',
                      calls := calls s @ [NdiCommand (device s) ''TSTOP:'', NdiGetError (device s)]\<rparr>))"
  by (simp add: stop_tracking_def check_for_errors_result io_defs ndi_defs)

lemma close_no_device:
  "\<not> truthy (device s) \<Longrightarrow>
   close lib s = (Inl (ValueError ''close called with no NDI device''), s)"
  by (simp add: close_def io_defs)

lemma close_not_tracking:
  "truthy (device s) \<Longrightarrow> state s \<noteq> Some ''tracking'' \<Longrightarrow>
   close lib s = (Inr (), s\<lparr>device := PyNone, calls := calls s @
      (if tracker_type s = Some ''vega'' then [NdiCloseNetwork (device s)]
       else if tracker_type s = Some ''aurora'' \<or> tracker_type s = Some ''polaris''
       then [NdiClose (device s)]
       else [])\<rparr>)"
  by (auto simp add: close_def io_defs ndi_defs)

lemma close_tracking:
  "truthy (device s) \<Longrightarrow> state s = Some ''tracking'' \<Longrightarrow>
   error_answer lib (calls s @ [NdiCommand (device s) ''TSTOP:'']) (device s) = NDI_OKAY lib \<Longrightarrow>
   close lib s = (Inr (), s\<lparr>state := Some ''ready'', device := PyNone, calls := calls s @
      [NdiCommand (device s) ''TSTOP:'', NdiGetError (device s)] @
      (if tracker_type s = Some ''vega'' then [NdiCloseNetwork (device s)]
       else if tracker_type s = Some ''aurora'' \<or> tracker_type s = Some ''polaris''
       then [NdiClose (device s)]
       else [])\<rparr>)"
  by (auto simp add: close_def stop_tracking_result io_defs ndi_defs)

lemma close_tracking_stop_fails:
  "truthy (device s) \<Longrightarrow> state s = Some ''tracking'' \<Longrightarrow>
   error_answer lib (calls s @ [NdiCommand (device s) ''TSTOP:'']) (device s) \<noteq> NDI_OKAY lib \<Longrightarrow>
   \<exists>e. fst (close lib s) = Inl e"
  by (auto simp add: close_def stop_tracking_result io_defs ndi_defs)

lemma close_tracking_stop_rejected:
  "truthy (device s) \<Longrightarrow> state s = Some ''tracking'' \<Longrightarrow>
   error_answer lib (calls s @ [NdiCommand (device s) ''TSTOP:'']) (device s) \<noteq> NDI_OKAY lib \<Longrightarrow>
   close lib s =
     (Inl (IOError (''error when stopping tracking.. the error was: ''
        @ errorString_answer lib
            (error_answer lib (calls s @ [NdiCommand (device s) ''TSTOP:'']) (device s)))),
      s\<lparr>calls := calls s @ [NdiCommand (device s) ''TSTOP:'', NdiGetError (device s),
                             NdiClose (device s)]\<rparr>)"
  by (auto simp add: close_def stop_tracking_result io_defs ndi_defs)

subsection \<open>Frames\<close>

lemma bx_row_frame_row:
  "bx_row lib =
     frame_row (bxFrame_answer lib) (bxTransform_answer lib) NdiGetBXFrame NdiGetBXTransform"
  by (intro ext) (simp add: bx_row_def frame_row_def ndiGetBXFrame_def ndiGetBXTransform_def)

lemma gx_row_frame_row:
  "gx_row lib =
     frame_row (gxFrame_answer lib) (gxTransform_answer lib) NdiGetGXFrame NdiGetGXTransform"
  by (intro ext) (simp add: gx_row_def frame_row_def ndiGetGXFrame_def ndiGetGXTransform_def)

lemma frame_row_step:
  assumes len: "length xs = i"
    and run: "frame_row fa ta F T ts i (xs @ replicate 11 NaN # rest) s = (Inr a', s')"
  shows "a' = xs @ row_of (tool_descriptors s ! i) ts
                 (fa (calls s) (device s) (c_str_port_handle (tool_descriptors s ! i)))
                 (ta (calls s @ [F (device s) (c_str_port_handle (tool_descriptors s ! i))])
                    (device s) (c_str_port_handle (tool_descriptors s ! i))) # rest
       \<and> s' = s\<lparr>calls := calls s @ [F (device s) (c_str_port_handle (tool_descriptors s ! i)),
                                     T (device s) (c_str_port_handle (tool_descriptors s ! i))]\<rparr>"
  using run
  by (auto simp add: frame_row_def io_defs set_item_at [OF len] set_slice_at [OF len]
      replicate_11 replicate_8 row_of_def pose_block_def split: transform.splits if_splits)

lemma tool_calls_snoc:
  "tool_calls F T d (ts @ [t]) =
     tool_calls F T d ts @ [F d (c_str_port_handle t), T d (c_str_port_handle t)]"
  by (simp add: tool_calls_def)

lemma calls_before_Suc:
  "i < length (tool_descriptors s) \<Longrightarrow>
   calls_before F T s (Suc i) = calls_before F T s i @
     [F (device s) (c_str_port_handle (tool_descriptors s ! i)),
      T (device s) (c_str_port_handle (tool_descriptors s ! i))]"
  by (simp add: calls_before_def take_Suc_conv_app_nth tool_calls_snoc)

lemma frame_loop_closed:
  assumes run: "fold_io [0..<n] (frame_row fa ta F T ts) (full n 11 NaN) s = (Inr a', s')"
    and n: "n = length (tool_descriptors s)"
  shows "a' = map (loop_row fa ta F T ts s) [0..<n] \<and> s' = s\<lparr>calls := calls_before F T s n\<rparr>"
proof -
  let ?P = "\<lambda>i b t. b = map (loop_row fa ta F T ts s) [0..<i] @ replicate (n - i) (replicate 11 NaN)
                    \<and> t = s\<lparr>calls := calls_before F T s i\<rparr>"
  have start: "?P 0 (full n 11 NaN) s"
    by (simp add: full_def calls_before_def tool_calls_def)
  have step: "?P (Suc i) b' t'"
    if i: "i < n" and inv: "?P i b t" and body: "frame_row fa ta F T ts i b t = (Inr b', t')"
    for i b t b' t'
  proof -
    have rest: "replicate (n - i) (replicate 11 NaN)
        = replicate 11 NaN # replicate (n - Suc i) (replicate 11 NaN)"
      using i by (simp add: Suc_diff_Suc flip: replicate_Suc)
    have len: "length (map (loop_row fa ta F T ts s) [0..<i]) = i" by simp
    from inv rest have b: "b = map (loop_row fa ta F T ts s) [0..<i]
        @ replicate 11 NaN # replicate (n - Suc i) (replicate 11 NaN)"
      by simp
    from inv have t: "tool_descriptors t = tool_descriptors s" "device t = device s"
      "calls t = calls_before F T s i"
      by simp_all
    from frame_row_step [OF len body [unfolded b]] t i n
    show ?thesis
      by (simp add: loop_row_def Let_def calls_before_Suc inv)
  qed
  have "?P n a' s'"
    by (rule fold_io_upt_invariant [where P = ?P, OF start step run])
  then show ?thesis by simp
qed

lemma dummy_loop:
  "n \<le> m \<Longrightarrow>
   fold_io [0..<n] (dummy_row ts) (replicate m (replicate 11 NaN)) s =
     (Inr (replicate n (NaN # Num ts # replicate 9 NaN) @ replicate (m - n) (replicate 11 NaN)), s)"
proof (induction n)
  case 0
  show ?case by (simp add: ret_def)
next
  case (Suc n)
  have rest: "replicate (m - n) (replicate 11 NaN)
      = replicate 11 NaN # replicate (m - Suc n) (replicate 11 NaN)"
    using Suc.prems by (simp add: Suc_diff_Suc flip: replicate_Suc)
  have row: "(replicate 11 NaN)[Suc 0 := Num ts] = NaN # Num ts # replicate 9 NaN"
    unfolding replicate_11 by (simp add: numeral_eq_Suc)
  have "dummy_row ts n (replicate n (NaN # Num ts # replicate 9 NaN)
          @ replicate 11 NaN # replicate (m - Suc n) (replicate 11 NaN)) s
      = (Inr (replicate n (NaN # Num ts # replicate 9 NaN) @ (NaN # Num ts # replicate 9 NaN)
          # replicate (m - Suc n) (replicate 11 NaN)), s)"
    by (simp add: dummy_row_def ret_def set_item_at row)
  with Suc show ?case
    by (simp add: fold_io_snoc bnd_def rest replicate_append_same)
qed

lemma get_frame_dummy:
  assumes "tracker_type s = Some ''dummy''"
  shows "get_frame lib ts s =
    (Inr (replicate (length (tool_descriptors s)) (NaN # Num ts # replicate 9 NaN)), s)"
  using assms dummy_loop [of "length (tool_descriptors s)" "length (tool_descriptors s)" ts s]
  by (simp add: get_frame_def get_frame_bx_def get_frame_gx_def io_defs full_def)

lemma get_frame_closed:
  assumes run: "get_frame lib ts s = (Inr frame, s')"
    and real: "tracker_type s \<noteq> Some ''dummy''"
  shows "frame = map (\<lambda>i. row_of (tool_descriptors s ! i) ts (frame_number lib s i)
                        (reported_transform lib s i))
                   [0..<length (tool_descriptors s)]
       \<and> s' = s\<lparr>calls := calls_at s (length (tool_descriptors s))\<rparr>"
proof (cases "uses_bx s")
  case True
  let ?s1 = "log (NdiCommand (device s) ''BX:0801'') s"
  from run real True
  have "fold_io [0..<length (tool_descriptors ?s1)]
          (frame_row (bxFrame_answer lib) (bxTransform_answer lib) NdiGetBXFrame NdiGetBXTransform ts)
          (full (length (tool_descriptors ?s1)) 11 NaN) ?s1 = (Inr frame, s')"
    by (simp add: get_frame_def get_frame_bx_def io_defs ndiCommand_def uses_bx_def bx_row_frame_row)
  from frame_loop_closed [OF this refl] True show ?thesis
    by (simp add: loop_row_def Let_def calls_before_def calls_at_def frame_request_def log_def
        frame_number_def reported_transform_def)
next
  case False
  let ?s1 = "log (NdiCommand (device s) ''GX:0801'') s"
  from run real False
  have "fold_io [0..<length (tool_descriptors ?s1)]
          (frame_row (gxFrame_answer lib) (gxTransform_answer lib) NdiGetGXFrame NdiGetGXTransform ts)
          (full (length (tool_descriptors ?s1)) 11 NaN) ?s1 = (Inr frame, s')"
    by (simp add: get_frame_def get_frame_gx_def io_defs ndiCommand_def uses_bx_def gx_row_frame_row)
  from frame_loop_closed [OF this refl] False show ?thesis
    by (simp add: loop_row_def Let_def calls_before_def calls_at_def frame_request_def log_def
        frame_number_def reported_transform_def)
qed

subsection \<open>The dummy tracker\<close>

lemma append_romfiles_result:
  "append_romfiles romfiles s =
     (Inr (), s\<lparr>tool_descriptors := tool_descriptors s @
        map (\<lambda>romfile. \<lparr>description = PyStr romfile, port_handle = None,
                              c_str_port_handle = None\<rparr>) romfiles\<rparr>)"
  by (simp add: append_romfiles_def append_tools)

lemma connect_dummy:
  "cfg_tracker_type cfg = Some ''dummy'' \<Longrightarrow>
   connect lib cfg s =
     (Inr (), s\<lparr>device := PyTrue, tool_descriptors := tool_descriptors s @ new_tools cfg,
                tracker_type := Some ''dummy'', device_firmware_version := Some ''unknown 00.0'',
                use_bx_transforms := Some True\<rparr>)"
  by (simp add: connect_def configure_def config_dummy_def append_romfiles_result
      get_firmware_version_def set_use_bx_transforms_def supported_trackers_def new_tools_def
      io_defs split: option.splits)

subsection \<open>What a method leaves as it was\<close>

lemma preservesD: "preserves f m \<Longrightarrow> f (snd (m s)) = f s"
  by (simp add: preserves_def)

lemma preserves_ret: "preserves f (ret x)"
  by (simp add: preserves_def ret_def)

lemma preserves_raise: "preserves f (raise e)"
  by (simp add: preserves_def raise_def)

lemma preserves_read: "preserves f (read g)"
  by (simp add: preserves_def read_def)

lemma preserves_modify: "(\<And>s. f (g s) = f s) \<Longrightarrow> preserves f (modify g)"
  by (simp add: preserves_def modify_def)

lemma preserves_bnd:
  assumes "preserves f m" and "\<And>x. preserves f (g x)"
  shows "preserves f (bnd m g)"
  unfolding preserves_def
proof
  fix s
  show "f (snd (bnd m g s)) = f s"
  proof (cases "m s")
    case (Pair r s')
    with preservesD [OF assms(1), of s] have s': "f s' = f s" by simp
    show ?thesis
    proof (cases r)
      case (Inl e)
      with Pair s' show ?thesis by (simp add: bnd_def)
    next
      case (Inr x)
      with Pair s' preservesD [OF assms(2), of x s'] show ?thesis by (simp add: bnd_def)
    qed
  qed
qed

lemma preserves_py_if: "preserves f m \<Longrightarrow> preserves f (py_if c m)"
  by (simp add: py_if_def preserves_ret)

lemma preserves_if: "preserves f m \<Longrightarrow> preserves f m' \<Longrightarrow> preserves f (if c then m else m')"
  by simp

lemma preserves_for_each: "(\<And>x. preserves f (body x)) \<Longrightarrow> preserves f (for_each xs body)"
  by (induction xs) (simp_all add: preserves_ret preserves_bnd)

lemma preserves_case_option:
  "preserves f m \<Longrightarrow> (\<And>x. preserves f (g x)) \<Longrightarrow>
   preserves f (case v of None \<Rightarrow> m | Some x \<Rightarrow> g x)"
  by (cases v) simp_all

lemma preserves_case_prod:
  "(\<And>a b. preserves f (g a b)) \<Longrightarrow> preserves f (case p of (a, b) \<Rightarrow> g a b)"
  by (cases p) simp

lemma descriptions_log: "descriptions (log c s) = descriptions s"
  by (simp add: descriptions_def log_def)

lemma preserves_calls:
  "preserves descriptions (system_call_ping lib param ip)"
  "preserves descriptions (ndiDeviceName lib n)"
  "preserves descriptions (ndiProbe lib name)"
  "preserves descriptions (ndiOpen lib name)"
  "preserves descriptions (ndiClose d)"
  "preserves descriptions (ndiOpenNetwork lib ip' p)"
  "preserves descriptions (ndiCloseNetwork d)"
  "preserves descriptions (ndiGetPHSRNumberOfHandles lib d)"
  "preserves descriptions (ndiGetPHRQHandle lib d i)"
  "preserves descriptions (ndiPVWRFromFile d h file)"
  "preserves descriptions (ndiCommand d c)"
  "preserves descriptions (ndiGetError lib d)"
  "preserves descriptions (ndiVER lib d k)"
  by (simp_all add: preserves_def ndi_defs descriptions_log)

lemmas preserves_intros = preserves_ret preserves_raise preserves_read preserves_bnd preserves_py_if
  preserves_if preserves_for_each preserves_case_option preserves_case_prod preserves_calls
  preserves_modify

lemma description_nth_update:
  "j < length ts \<Longrightarrow> description (ts[i := (ts ! i)\<lparr>port_handle := h\<rparr>] ! j) = description (ts ! j)"
  "j < length ts \<Longrightarrow> description (ts[i := (ts ! i)\<lparr>c_str_port_handle := c\<rparr>] ! j) = description (ts ! j)"
  by (cases "j = i"; simp)+

lemma description_update_handle:
  "map description (ts[i := (ts ! i)\<lparr>port_handle := h\<rparr>]) = map description ts"
  "map description (ts[i := (ts ! i)\<lparr>c_str_port_handle := c\<rparr>]) = map description ts"
  by (simp_all add: list_eq_iff_nth_eq description_nth_update)

lemma preserves_check_for_errors: "preserves descriptions (check_for_errors lib msg)"
  unfolding check_for_errors_def by (intro preserves_intros)

lemma preserves_stop_tracking: "preserves descriptions (stop_tracking lib)"
  unfolding stop_tracking_def
  by (intro preserves_intros preserves_check_for_errors) (simp add: descriptions_def)

lemma preserves_format_02x: "preserves f (format_02x v)"
  unfolding format_02x_def by (intro preserves_intros)

lemma preserves_case_list:
  "preserves f m \<Longrightarrow> (\<And>x xs. preserves f (g x xs)) \<Longrightarrow>
   preserves f (case l of [] \<Rightarrow> m | x # xs \<Rightarrow> g x xs)"
  by (cases l) simp_all

lemma preserves_connect_network: "preserves descriptions (connect_network lib)"
  unfolding connect_network_def Let_def
  by (intro preserves_intros preserves_check_for_errors) (simp_all add: descriptions_def)

lemma preserves_probe_loop: "preserves descriptions (probe_loop lib ports nr)"
proof (induction ports arbitrary: nr)
  case Nil
  show ?case by (simp add: preserves_ret)
next
  case (Cons p ports)
  show ?case
    unfolding probe_loop.simps
    by (intro preserves_intros Cons.IH)
qed

lemma preserves_connect_serial: "preserves descriptions (connect_serial lib)"
  unfolding connect_serial_def
  by (intro preserves_intros preserves_check_for_errors preserves_probe_loop)
    (simp_all add: descriptions_def)

lemma preserves_load_srom: "preserves descriptions (load_srom lib i)"
  unfolding load_srom_def
  by (intro preserves_intros preserves_check_for_errors)
    (simp_all add: descriptions_def description_update_handle)

lemma preserves_free_port: "preserves descriptions (free_port lib i)"
  unfolding free_port_def by (intro preserves_intros preserves_check_for_errors)

lemma preserves_read_sroms: "preserves descriptions (read_sroms_from_file lib)"
  unfolding read_sroms_from_file_def
  by (intro preserves_intros preserves_stop_tracking preserves_free_port preserves_load_srom)

lemma preserves_initialise_ports: "preserves descriptions (initialise_ports lib)"
  unfolding initialise_ports_def initialise_port_def
  by (intro preserves_intros preserves_check_for_errors preserves_format_02x)

lemma preserves_enable_tools: "preserves descriptions (enable_tools lib)"
  unfolding enable_tools_def enable_tool_def Let_def
  by (intro preserves_intros preserves_check_for_errors preserves_format_02x)

lemma preserves_freeze_tag_line: "preserves descriptions (freeze_tag_line line)"
  unfolding freeze_tag_line_def
  by (intro preserves_intros preserves_case_list) (simp add: descriptions_def)

lemma preserves_get_firmware_version: "preserves descriptions (get_firmware_version lib)"
  unfolding get_firmware_version_def
  by (intro preserves_intros preserves_freeze_tag_line) (simp add: descriptions_def)

lemma preserves_set_use_bx: "preserves descriptions set_use_bx_transforms"
  unfolding set_use_bx_transforms_def
  by (intro preserves_intros) (simp_all add: descriptions_def)

subsection \<open>Configuring twice\<close>

lemma append_tools_unfolded:
  "for_each xs (\<lambda>x s. (Inr (), s\<lparr>tool_descriptors := tool_descriptors s @ [g x]\<rparr>)) s
     = (Inr (), s\<lparr>tool_descriptors := tool_descriptors s @ map g xs\<rparr>)"
  using append_tools [of xs g s] by (simp add: modify_def)

lemma configure_tools:
  "tool_descriptors (snd (configure cfg s)) =
     tool_descriptors s @ (if fst (configure cfg s) = Inr () then new_tools cfg else [])"
  by (auto simp add: configure_def config_vega_def config_polaris_def config_aurora_def
      config_dummy_def config_serial_settings_def append_romfiles_result append_tools_unfolded
      supported_trackers_def new_tools_def io_defs split: option.splits)

lemma bnd_preserves_tail:
  assumes "\<And>x. preserves f (g x)"
  shows "f (snd (bnd m g s)) = f (snd (m s))"
proof (cases "m s")
  case (Pair r s')
  show ?thesis
  proof (cases r)
    case (Inl e)
    with Pair show ?thesis by (simp add: bnd_def)
  next
    case (Inr x)
    with Pair preservesD [OF assms, of x s'] show ?thesis by (simp add: bnd_def)
  qed
qed

lemma preserves_connect_vega: "preserves descriptions (connect_vega lib)"
  unfolding connect_vega_def
  by (intro preserves_intros preserves_connect_network preserves_read_sroms
      preserves_initialise_ports preserves_enable_tools)

lemma preserves_connect_polaris: "preserves descriptions (connect_polaris lib)"
  unfolding connect_polaris_def
  by (intro preserves_intros preserves_connect_serial preserves_read_sroms
      preserves_initialise_ports preserves_enable_tools)

lemma preserves_connect_aurora: "preserves descriptions (connect_aurora lib)"
  unfolding connect_aurora_def
  by (intro preserves_intros preserves_connect_serial preserves_initialise_ports
      preserves_enable_tools)

lemma connect_descriptions:
  "descriptions (snd (connect lib cfg s)) = descriptions (snd (configure cfg s))"
  unfolding connect_def
  by (rule bnd_preserves_tail)
    (intro preserves_intros preserves_connect_vega preserves_connect_polaris
      preserves_connect_aurora preserves_get_firmware_version preserves_set_use_bx,
      simp add: descriptions_def)

lemma connect_ok_configure_ok:
  "fst (connect lib cfg s) = Inr () \<Longrightarrow> fst (configure cfg s) = Inr ()"
  by (cases "configure cfg s"; cases "fst (configure cfg s)")
    (auto simp add: connect_def bnd_def)

lemma descriptions_loop:
  "n \<le> m \<Longrightarrow>
   fold_io [0..<n] description_row (replicate m [e, e]) s =
     (Inr (map (\<lambda>i. [PyInt (int i), description (tool_descriptors s ! i)]) [0..<n]
           @ replicate (m - n) [e, e]), s)"
proof (induction n)
  case 0
  show ?case by (simp add: ret_def)
next
  case (Suc n)
  let ?done = "map (\<lambda>i. [PyInt (int i), description (tool_descriptors s ! i)]) [0..<n]"
  have rest: "replicate (m - n) [e, e] = [e, e] # replicate (m - Suc n) [e, e]"
    using Suc.prems by (simp add: Suc_diff_Suc flip: replicate_Suc)
  have len: "length ?done = n" by simp
  have "description_row n (?done @ [e, e] # replicate (m - Suc n) [e, e]) s
      = (Inr (?done @ [PyInt (int n), description (tool_descriptors s ! n)]
           # replicate (m - Suc n) [e, e]), s)"
    by (simp add: description_row_def io_defs set_item_at [OF len])
  with Suc show ?case
    by (simp add: fold_io_snoc bnd_def rest)
qed

lemma get_tool_descriptions_result:
  "get_tool_descriptions s =
     (Inr (map (\<lambda>i. [PyInt (int i), description (tool_descriptors s ! i)])
             [0..<length (tool_descriptors s)]), s)"
  using descriptions_loop [of "length (tool_descriptors s)" "length (tool_descriptors s)"
      "PyStr ''empty''" s]
  by (simp add: get_tool_descriptions_def io_defs full_def numeral_eq_Suc)

lemma get_frame_length:
  assumes "fst (get_frame lib ts s) = Inr frame"
  shows "length frame = length (tool_descriptors s)"
proof (cases "tracker_type s = Some ''dummy''")
  case True
  from assms get_frame_dummy [OF True, of lib ts] show ?thesis by auto
next
  case False
  from assms have "get_frame lib ts s = (Inr frame, snd (get_frame lib ts s))"
    by (simp add: prod_eq_iff)
  from get_frame_closed [OF this False] show ?thesis by simp
qed

section \<open>The claims\<close>

text \<open>
  C1. A successful \<open>get_frame\<close> returns one row per entry of \<open>tool_descriptors\<close>, in the
  order of that list, and every row has 11 fields. For a tracker that is not the dummy,
  row \<open>i\<close> holds the port handle of tool \<open>i\<close>, the host timestamp, the frame number that
  the device answered for tool \<open>i\<close>, and then the eight numbers of the transform that the
  device answered for tool \<open>i\<close> (x, y, z, the four orientation components and the quality,
  as the device orders them). For the dummy the same shape holds with the timestamp only.
  The list of tools is not changed by the call.
\<close>

theorem get_frame_rows_follow_configuration:
  assumes run: "fst (get_frame lib ts s) = Inr frame"
  shows "length frame = length (tool_descriptors s) \<and>
    tool_descriptors (snd (get_frame lib ts s)) = tool_descriptors s \<and>
    (\<forall>i < length (tool_descriptors s).
       length (frame ! i) = 11 \<and> frame ! i ! 1 = Num ts \<and>
       (if tracker_type s = Some ''dummy''
        then frame ! i ! 0 = NaN \<and> frame ! i ! 2 = NaN \<and> drop 3 (frame ! i) = replicate 8 NaN
        else frame ! i ! 0 = as_float (port_handle (tool_descriptors s ! i)) \<and>
             frame ! i ! 2 = Num (of_int (frame_number lib s i)) \<and>
             (\<forall>vs. reported_transform lib s i = Transform vs \<and> length vs = 8 \<longrightarrow>
                drop 3 (frame ! i) = vs)))"
proof (cases "tracker_type s = Some ''dummy''")
  case True
  from run get_frame_dummy [OF True, of lib ts]
  have "frame = replicate (length (tool_descriptors s)) (NaN # Num ts # replicate 9 NaN)"
    and "snd (get_frame lib ts s) = s"
    by auto
  with True show ?thesis by (simp add: numeral_eq_Suc)
next
  case False
  from run have "get_frame lib ts s = (Inr frame, snd (get_frame lib ts s))"
    by (simp add: prod_eq_iff)
  from get_frame_closed [OF this False] False show ?thesis
    by (auto simp add: row_of_def length_pose_block) (simp add: pose_block_def)
qed

theorem get_frame_rows_follow_configuration_witness:
  "fst (get_frame example_device 5 example_tracking) = Inr example_frame \<and>
   length example_frame = length (tool_descriptors example_tracking) \<and>
   tool_descriptors (snd (get_frame example_device 5 example_tracking))
     = tool_descriptors example_tracking \<and>
   length (example_frame ! 1) = 11 \<and>
   example_frame ! 1 ! 1 = Num 5 \<and>
   example_frame ! 1 ! 0 = as_float (port_handle (tool_descriptors example_tracking ! 1)) \<and>
   example_frame ! 1 ! 2 = Num (of_int (frame_number example_device example_tracking 1)) \<and>
   drop 3 (example_frame ! 1) = [Num 1, Num 2, Num 3, Num 1, Num 0, Num 0, Num 0, Num 1]"
proof -
  have run: "fst (get_frame example_device 5 example_tracking) = Inr example_frame"
    by code_simp
  have i: "1 < length (tool_descriptors example_tracking)"
    by code_simp
  have real: "tracker_type example_tracking \<noteq> Some ''dummy''"
    by code_simp
  have reply: "reported_transform example_device example_tracking 1
      = Transform [Num 1, Num 2, Num 3, Num 1, Num 0, Num 0, Num 0, Num 1]"
    by code_simp
  from get_frame_rows_follow_configuration [OF run] i real reply run
  show ?thesis by simp
qed

text \<open>
  C2. \<open>get_frame\<close> prefers the text protocol exactly when the firmware version string is
  the one legacy revision string \<open>' AURORA Rev 007'\<close>. When the tracker is the dummy, or
  the version reply of the device has no \<open>Freeze Tag\<close> line, the version is the sentinel
  \<open>'unknown 00.0'\<close>, and the binary protocol is selected.
\<close>

theorem prefer_text_frames_iff_legacy_revision:
  "(preferTextFrames (snd (set_use_bx_transforms (s\<lparr>device_firmware_version := Some v\<rparr>)))
      \<longleftrightarrow> v = '' AURORA Rev 007'') \<and>
   (tracker_type s = Some ''dummy'' \<or>
    list_all (\<lambda>l. \<not> startswith l ''Freeze Tag:'')
      (split_on (CHR 0x0A) (ver_answer lib (calls s) (device s)))
    \<longrightarrow> fst (bnd (get_firmware_version lib) (\<lambda>_. set_use_bx_transforms) s) = Inr () \<and>
        device_firmware_version (snd (get_firmware_version lib s)) = Some ''unknown 00.0'' \<and>
        \<not> preferTextFrames (snd (bnd (get_firmware_version lib) (\<lambda>_. set_use_bx_transforms) s)))"
proof (intro conjI impI)
  show "preferTextFrames (snd (set_use_bx_transforms (s\<lparr>device_firmware_version := Some v\<rparr>)))
      \<longleftrightarrow> v = '' AURORA Rev 007''"
    by (simp add: set_use_bx_transforms_result preferTextFrames_def)
next
  assume h: "tracker_type s = Some ''dummy'' \<or>
    list_all (\<lambda>l. \<not> startswith l ''Freeze Tag:'')
      (split_on (CHR 0x0A) (ver_answer lib (calls s) (device s)))"
  have "\<exists>s1. get_firmware_version lib s = (Inr (), s1) \<and>
      device_firmware_version s1 = Some ''unknown 00.0''"
  proof (cases "tracker_type s = Some ''dummy''")
    case True
    then show ?thesis by (simp add: get_firmware_version_dummy)
  next
    case False
    with h show ?thesis by (simp add: get_firmware_version_no_tag)
  qed
  then obtain s1 where v: "get_firmware_version lib s = (Inr (), s1)"
    and u: "device_firmware_version s1 = Some ''unknown 00.0''"
    by blast
  from v u show "device_firmware_version (snd (get_firmware_version lib s)) = Some ''unknown 00.0''"
    by simp
  from v show "fst (bnd (get_firmware_version lib) (\<lambda>_. set_use_bx_transforms) s) = Inr ()"
    by (simp add: bnd_def set_use_bx_transforms_result)
  from v u show "\<not> preferTextFrames (snd (bnd (get_firmware_version lib) (\<lambda>_. set_use_bx_transforms) s))"
    by (simp add: bnd_def set_use_bx_transforms_result preferTextFrames_def)
qed

theorem prefer_text_frames_iff_legacy_revision_witness:
  "preferTextFrames (snd (set_use_bx_transforms
     (example_tracking\<lparr>device_firmware_version := Some '' AURORA Rev 007''\<rparr>))) \<and>
   list_all (\<lambda>l. \<not> startswith l ''Freeze Tag:'')
     (split_on (CHR 0x0A) (ver_answer example_untagged (calls example_tracking)
        (device example_tracking))) \<and>
   fst (bnd (get_firmware_version example_untagged) (\<lambda>_. set_use_bx_transforms) example_tracking)
     = Inr () \<and>
   device_firmware_version (snd (get_firmware_version example_untagged example_tracking))
     = Some ''unknown 00.0'' \<and>
   \<not> preferTextFrames (snd (bnd (get_firmware_version example_untagged)
        (\<lambda>_. set_use_bx_transforms) example_tracking))"
proof -
  have h: "list_all (\<lambda>l. \<not> startswith l ''Freeze Tag:'')
     (split_on (CHR 0x0A) (ver_answer example_untagged (calls example_tracking)
        (device example_tracking)))"
    by code_simp
  from prefer_text_frames_iff_legacy_revision
    [where s = example_tracking and v = "'' AURORA Rev 007''" and lib = example_untagged] h
  show ?thesis by simp
qed

text \<open>
  C3 (as amended). A successful \<open>close\<close> clears the device handle whatever the state was,
  and it sends \<open>TSTOP:\<close> first when \<open>_state\<close> is \<open>'tracking'\<close>. It does not reset \<open>_state\<close>:
  after the call \<open>_state\<close> is \<open>'ready'\<close> when it was \<open>'tracking'\<close>, and what it was
  otherwise.
\<close>

theorem close_clears_handle_and_keeps_state:
  assumes ok: "fst (close lib s) = Inr ()"
  shows "device (snd (close lib s)) = PyNone \<and>
    state (snd (close lib s)) = (if state s = Some ''tracking'' then Some ''ready'' else state s) \<and>
    prefix (calls s @ (if state s = Some ''tracking'' then [NdiCommand (device s) ''TSTOP:''] else []))
      (calls (snd (close lib s)))"
proof -
  from ok have d: "truthy (device s)"
    by (cases "truthy (device s)") (simp_all add: close_no_device)
  show ?thesis
  proof (cases "state s = Some ''tracking''")
    case False
    with d show ?thesis by (simp add: close_not_tracking)
  next
    case True
    with d ok
    have "error_answer lib (calls s @ [NdiCommand (device s) ''TSTOP:'']) (device s) = NDI_OKAY lib"
      using close_tracking_stop_fails [of s lib] by auto
    with d True show ?thesis by (simp add: close_tracking)
  qed
qed

theorem close_clears_handle_and_keeps_state_witness:
  "fst (close example_device example_tracking) = Inr () \<and>
   device (snd (close example_device example_tracking)) = PyNone \<and>
   state (snd (close example_device example_tracking)) = Some ''ready'' \<and>
   prefix (calls example_tracking @ [NdiCommand (device example_tracking) ''TSTOP:''])
     (calls (snd (close example_device example_tracking)))"
proof -
  have ok: "fst (close example_device example_tracking) = Inr ()"
    by code_simp
  have t: "state example_tracking = Some ''tracking''"
    by code_simp
  from close_clears_handle_and_keeps_state [OF ok] t ok show ?thesis by simp
qed

text \<open>
  The claim C3 as it was stated fails: after a connection to a network device and a
  successful \<open>close\<close>, the device handle is \<open>None\<close> while \<open>_state\<close> still reads \<open>'ready'\<close>.
\<close>

theorem close_does_not_reset_state_counterexample:
  "fst (connect example_device example_vega init) = Inr () \<and>
   fst (close example_device example_connected) = Inr () \<and>
   device (snd (close example_device example_connected)) = PyNone \<and>
   state (snd (close example_device example_connected)) = Some ''ready''"
  by code_simp

text \<open>
  C4. For the dummy tracker \<open>get_frame\<close> always returns, makes no call to the outside world
  and changes nothing in the instance; it returns one row per entry of \<open>tool_descriptors\<close>,
  and every row is not-a-number in every column but the timestamp. A fresh instance
  connects with any dummy configuration without a call to the outside world, and then
  \<open>get_frame\<close> returns one such row per configured rom file.
\<close>

theorem dummy_get_frame_needs_no_device:
  "(tracker_type s = Some ''dummy'' \<longrightarrow>
      get_frame lib ts s =
        (Inr (replicate (length (tool_descriptors s)) (NaN # Num ts # replicate 9 NaN)), s)) \<and>
   (cfg_tracker_type cfg = Some ''dummy'' \<longrightarrow>
      fst (connect lib cfg init) = Inr () \<and>
      calls (snd (connect lib cfg init)) = [] \<and>
      get_frame lib ts (snd (connect lib cfg init)) =
        (Inr (replicate (length (case cfg_romfiles cfg of None \<Rightarrow> [] | Some r \<Rightarrow> r))
                (NaN # Num ts # replicate 9 NaN)),
         snd (connect lib cfg init)))"
proof (intro conjI impI)
  assume "tracker_type s = Some ''dummy''"
  then show "get_frame lib ts s =
        (Inr (replicate (length (tool_descriptors s)) (NaN # Num ts # replicate 9 NaN)), s)"
    by (rule get_frame_dummy)
next
  assume c: "cfg_tracker_type cfg = Some ''dummy''"
  let ?s = "snd (connect lib cfg init)"
  from c show "fst (connect lib cfg init) = Inr ()"
    by (simp add: connect_dummy)
  from c show "calls ?s = []"
    by (simp add: connect_dummy init_def)
  from c have t: "tracker_type ?s = Some ''dummy''"
    and n: "length (tool_descriptors ?s) = length (case cfg_romfiles cfg of None \<Rightarrow> [] | Some r \<Rightarrow> r)"
    by (simp_all add: connect_dummy init_def new_tools_def)
  from get_frame_dummy [OF t, of lib ts] n
  show "get_frame lib ts ?s =
        (Inr (replicate (length (case cfg_romfiles cfg of None \<Rightarrow> [] | Some r \<Rightarrow> r))
                (NaN # Num ts # replicate 9 NaN)), ?s)"
    by simp
qed

theorem dummy_get_frame_needs_no_device_witness:
  "cfg_tracker_type example_dummy = Some ''dummy'' \<and>
   tracker_type (snd (connect example_faulty example_dummy init)) = Some ''dummy'' \<and>
   fst (connect example_faulty example_dummy init) = Inr () \<and>
   calls (snd (connect example_faulty example_dummy init)) = [] \<and>
   get_frame example_faulty 5 (snd (connect example_faulty example_dummy init)) =
     (Inr [[NaN, Num 5, NaN, NaN, NaN, NaN, NaN, NaN, NaN, NaN, NaN],
           [NaN, Num 5, NaN, NaN, NaN, NaN, NaN, NaN, NaN, NaN, NaN]],
      snd (connect example_faulty example_dummy init))"
proof -
  have c: "cfg_tracker_type example_dummy = Some ''dummy''"
    by (simp add: example_dummy_def)
  have r: "cfg_romfiles example_dummy = Some [''a.rom'', ''b.rom'']"
    by (simp add: example_dummy_def)
  have t: "tracker_type (snd (connect example_faulty example_dummy init)) = Some ''dummy''"
    by (simp add: connect_dummy c)
  have row: "replicate (length [''a.rom'', ''b.rom'']) (NaN # Num 5 # replicate 9 NaN) =
      [[NaN, Num 5, NaN, NaN, NaN, NaN, NaN, NaN, NaN, NaN, NaN],
       [NaN, Num 5, NaN, NaN, NaN, NaN, NaN, NaN, NaN, NaN, NaN]]"
    by (simp add: numeral_eq_Suc)
  from dummy_get_frame_needs_no_device
    [where lib = example_faulty and ts = 5 and cfg = example_dummy] c
  have "fst (connect example_faulty example_dummy init) = Inr () \<and>
      calls (snd (connect example_faulty example_dummy init)) = [] \<and>
      get_frame example_faulty 5 (snd (connect example_faulty example_dummy init)) =
        (Inr (replicate (length (case cfg_romfiles example_dummy of None \<Rightarrow> [] | Some r \<Rightarrow> r))
                (NaN # Num 5 # replicate 9 NaN)),
         snd (connect example_faulty example_dummy init))"
    by blast
  with c t r row show ?thesis by simp
qed

text \<open>
  C5 (the code departs from the claim). The error check closes the device with the serial
  \<open>ndiClose\<close> whatever the tracker type is. On a network (vega) connection whose error
  register is not \<open>NDI_OKAY\<close> after \<open>INIT:\<close>, \<open>connect\<close> raises the IOError that carries the
  context and the error text of the device, nothing is called after the raise, and the
  handle that \<open>ndiOpenNetwork\<close> answered has been given to \<open>ndiClose\<close>, not to
  \<open>ndiCloseNetwork\<close> as \<open>close\<close> does for this tracker type. The same holds when the
  error register is not \<open>NDI_OKAY\<close> after the \<open>PENA\<close> command of a tool: the context is
  \<open>Enabling port handle 10.\<close>, the last call is \<open>ndiClose\<close>, and the firmware version is
  never asked for.
\<close>

theorem check_for_errors_closes_network_device_with_serial_close:
  "fst (connect example_faulty example_vega init) =
     Inl (IOError ''error when Sending INIT command. the error was: error'') \<and>
   calls (snd (connect example_faulty example_vega init)) =
     [Ping ''-c'' (Some ''10.0.0.1''), NdiOpenNetwork (Some ''10.0.0.1'') (Some 8765),
      NdiCommand (Handle 1) ''INIT:'', NdiGetError (Handle 1), NdiClose (Handle 1)] \<and>
   calls (snd (close example_device example_connected)) =
     calls example_connected @ [NdiCloseNetwork (Handle 1)] \<and>
   fst (connect example_enable_fails example_vega init) =
     Inl (IOError ''error when Enabling port handle 10.. the error was: error'') \<and>
   calls (snd (connect example_enable_fails example_vega init)) =
     [Ping ''-c'' (Some ''10.0.0.1''), NdiOpenNetwork (Some ''10.0.0.1'') (Some 8765),
      NdiCommand (Handle 1) ''INIT:'', NdiGetError (Handle 1),
      NdiCommand (Handle 1) ''TSTOP:'', NdiGetError (Handle 1),
      NdiCommand (Handle 1) ''PHSR:01'', NdiGetPHSRNumberOfHandles (Handle 1),
      NdiCommand (Handle 1) ''PHRQ:*********1****'',
      NdiGetPHRQHandle (Handle 1) None, NdiGetError (Handle 1),
      NdiPVWRFromFile (Handle 1) 10 (PyStr ''t.rom''), NdiGetError (Handle 1),
      NdiCommand (Handle 1) ''PHSR:01'', NdiCommand (Handle 1) ''PHSR:02'',
      NdiCommand (Handle 1) ''PINIT:0a'', NdiGetError (Handle 1),
      NdiCommand (Handle 1) ''PHSR:03'', NdiCommand (Handle 1) ''PENA:0aD'',
      NdiGetError (Handle 1), NdiClose (Handle 1)] \<and>
   device_firmware_version (snd (connect example_enable_fails example_vega init)) = None"
  by code_simp

text \<open>
  C6 (the code departs from the claim). With no serial port given and a number of ports to
  probe of 0, no candidate is probed and none answers, and \<open>connect\<close> does not raise the
  IOError with the hints: the local variable \<open>result\<close> was never assigned, and reading it
  raises UnboundLocalError.
\<close>

theorem connect_serial_without_candidates_reads_unassigned_result:
  "fst (connect example_device example_polaris_zero init) =
     Inl (UnboundLocalError
       ''cannot access local variable result where it is not associated with a value'') \<and>
   calls (snd (connect example_device example_polaris_zero init)) = []"
  by code_simp

text \<open>
  C7. A configuration with no tracker type, with a tracker type that is not supported, for
  vega with no ip address or no rom files, for polaris with no rom files, or for aurora
  with no ports to use, makes \<open>connect\<close> raise KeyError or ValueError; no call to the
  outside world is made, and the device handle and the list of tools are as they were.
\<close>

theorem missing_field_fails_before_any_call:
  assumes "cfg_tracker_type cfg = None \<or>
     (\<exists>t. cfg_tracker_type cfg = Some t \<and> List.member supported_trackers t = False) \<or>
     (cfg_tracker_type cfg = Some ''vega'' \<and>
        (cfg_ip_address cfg = None \<or> cfg_romfiles cfg = None)) \<or>
     (cfg_tracker_type cfg = Some ''polaris'' \<and> cfg_romfiles cfg = None) \<or>
     (cfg_tracker_type cfg = Some ''aurora'' \<and> cfg_ports_to_use cfg = None)"
  shows "(\<exists>m. fst (connect lib cfg s) = Inl (KeyError m) \<or>
              fst (connect lib cfg s) = Inl (ValueError m)) \<and>
    calls (snd (connect lib cfg s)) = calls s \<and>
    device (snd (connect lib cfg s)) = device s \<and>
    tool_descriptors (snd (connect lib cfg s)) = tool_descriptors s"
  using assms
proof (elim disjE conjE exE)
  assume "cfg_tracker_type cfg = None"
  then show ?thesis by (simp add: connect_no_tracker_type)
next
  fix t assume "cfg_tracker_type cfg = Some t" "List.member supported_trackers t = False"
  with connect_unsupported [of cfg t lib s] show ?thesis by auto
next
  assume "cfg_tracker_type cfg = Some ''vega''" "cfg_ip_address cfg = None"
  with connect_vega_missing [of cfg lib s] show ?thesis by auto
next
  assume "cfg_tracker_type cfg = Some ''vega''" "cfg_romfiles cfg = None"
  with connect_vega_missing [of cfg lib s] show ?thesis by auto
next
  assume "cfg_tracker_type cfg = Some ''polaris''" "cfg_romfiles cfg = None"
  then show ?thesis by (simp add: connect_polaris_missing)
next
  assume "cfg_tracker_type cfg = Some ''aurora''" "cfg_ports_to_use cfg = None"
  with connect_aurora_missing [of cfg lib s] show ?thesis by auto
qed

theorem missing_field_fails_before_any_call_witness:
  "cfg_tracker_type (example_vega\<lparr>cfg_romfiles := None\<rparr>) = Some ''vega'' \<and>
   cfg_romfiles (example_vega\<lparr>cfg_romfiles := None\<rparr>) = None \<and>
   (\<exists>m. fst (connect example_device (example_vega\<lparr>cfg_romfiles := None\<rparr>) example_tracking)
           = Inl (KeyError m) \<or>
        fst (connect example_device (example_vega\<lparr>cfg_romfiles := None\<rparr>) example_tracking)
           = Inl (ValueError m)) \<and>
   calls (snd (connect example_device (example_vega\<lparr>cfg_romfiles := None\<rparr>) example_tracking))
     = calls example_tracking \<and>
   device (snd (connect example_device (example_vega\<lparr>cfg_romfiles := None\<rparr>) example_tracking))
     = device example_tracking \<and>
   tool_descriptors
       (snd (connect example_device (example_vega\<lparr>cfg_romfiles := None\<rparr>) example_tracking))
     = tool_descriptors example_tracking \<and>
   cfg_tracker_type (example_vega\<lparr>cfg_tracker_type := None\<rparr>) = None \<and>
   calls (snd (connect example_device (example_vega\<lparr>cfg_tracker_type := None\<rparr>) init)) = calls init"
proof -
  have a: "cfg_tracker_type (example_vega\<lparr>cfg_romfiles := None\<rparr>) = Some ''vega''"
    and b: "cfg_romfiles (example_vega\<lparr>cfg_romfiles := None\<rparr>) = None"
    and c: "cfg_tracker_type (example_vega\<lparr>cfg_tracker_type := None\<rparr>) = None"
    by (simp_all add: example_vega_def)
  from a b c
    missing_field_fails_before_any_call
      [where cfg = "example_vega\<lparr>cfg_romfiles := None\<rparr>" and lib = example_device
         and s = example_tracking]
    missing_field_fails_before_any_call
      [where cfg = "example_vega\<lparr>cfg_tracker_type := None\<rparr>" and lib = example_device
         and s = init]
  show ?thesis by simp
qed

text \<open>
  C8 (as amended). \<open>close\<close> raises ValueError and changes nothing when no device handle is
  held. When a handle is held and \<open>_state\<close> is not \<open>'tracking'\<close>, it calls \<open>ndiCloseNetwork\<close>
  for vega or \<open>ndiClose\<close> for aurora and polaris, and sets the handle to \<open>None\<close>. When
  \<open>_state\<close> is \<open>'tracking'\<close> it first sends \<open>TSTOP:\<close> and reads the error register. If the
  register reads \<open>NDI_OKAY\<close>, \<open>_state\<close> becomes \<open>'ready'\<close>, the same teardown follows and the
  handle is set to \<open>None\<close>. If it does not, \<open>close\<close> raises the IOError of the error check
  instead, and the handle and \<open>_state\<close> stay as they were.
\<close>

theorem close_stops_tears_down_and_clears_unless_stop_is_rejected:
  "(\<not> truthy (device s) \<longrightarrow>
      close lib s = (Inl (ValueError ''close called with no NDI device''), s)) \<and>
   (truthy (device s) \<and> state s \<noteq> Some ''tracking'' \<longrightarrow>
      close lib s = (Inr (), s\<lparr>device := PyNone, calls := calls s @
        (if tracker_type s = Some ''vega'' then [NdiCloseNetwork (device s)]
         else if tracker_type s = Some ''aurora'' \<or> tracker_type s = Some ''polaris''
         then [NdiClose (device s)]
         else [])\<rparr>)) \<and>
   (truthy (device s) \<and> state s = Some ''tracking'' \<and>
    error_answer lib (calls s @ [NdiCommand (device s) ''TSTOP:'']) (device s) = NDI_OKAY lib \<longrightarrow>
      close lib s = (Inr (), s\<lparr>state := Some ''ready'', device := PyNone, calls := calls s @
        [NdiCommand (device s) ''TSTOP:'', NdiGetError (device s)] @
        (if tracker_type s = Some ''vega'' then [NdiCloseNetwork (device s)]
         else if tracker_type s = Some ''aurora'' \<or> tracker_type s = Some ''polaris''
         then [NdiClose (device s)]
         else [])\<rparr>)) \<and>
   (truthy (device s) \<and> state s = Some ''tracking'' \<and>
    error_answer lib (calls s @ [NdiCommand (device s) ''TSTOP:'']) (device s) \<noteq> NDI_OKAY lib \<longrightarrow>
      fst (close lib s) =
        Inl (IOError (''error when stopping tracking.. the error was: ''
          @ errorString_answer lib
              (error_answer lib (calls s @ [NdiCommand (device s) ''TSTOP:'']) (device s)))) \<and>
      device (snd (close lib s)) = device s \<and>
      state (snd (close lib s)) = state s \<and>
      prefix (calls s @ [NdiCommand (device s) ''TSTOP:'', NdiGetError (device s)])
        (calls (snd (close lib s))))"
proof (intro conjI impI)
  assume "\<not> truthy (device s)"
  then show "close lib s = (Inl (ValueError ''close called with no NDI device''), s)"
    by (rule close_no_device)
next
  assume "truthy (device s) \<and> state s \<noteq> Some ''tracking''"
  then show "close lib s = (Inr (), s\<lparr>device := PyNone, calls := calls s @
        (if tracker_type s = Some ''vega'' then [NdiCloseNetwork (device s)]
         else if tracker_type s = Some ''aurora'' \<or> tracker_type s = Some ''polaris''
         then [NdiClose (device s)]
         else [])\<rparr>)"
    by (simp add: close_not_tracking)
next
  assume "truthy (device s) \<and> state s = Some ''tracking'' \<and>
    error_answer lib (calls s @ [NdiCommand (device s) ''TSTOP:'']) (device s) = NDI_OKAY lib"
  then show "close lib s = (Inr (), s\<lparr>state := Some ''ready'', device := PyNone,
        calls := calls s @ [NdiCommand (device s) ''TSTOP:'', NdiGetError (device s)] @
        (if tracker_type s = Some ''vega'' then [NdiCloseNetwork (device s)]
         else if tracker_type s = Some ''aurora'' \<or> tracker_type s = Some ''polaris''
         then [NdiClose (device s)]
         else [])\<rparr>)"
    using close_tracking [of s lib] by blast
next
  assume h: "truthy (device s) \<and> state s = Some ''tracking'' \<and>
    error_answer lib (calls s @ [NdiCommand (device s) ''TSTOP:'']) (device s) \<noteq> NDI_OKAY lib"
  then have r: "close lib s =
     (Inl (IOError (''error when stopping tracking.. the error was: ''
        @ errorString_answer lib
            (error_answer lib (calls s @ [NdiCommand (device s) ''TSTOP:'']) (device s)))),
      s\<lparr>calls := calls s @ [NdiCommand (device s) ''TSTOP:'', NdiGetError (device s),
                             NdiClose (device s)]\<rparr>)"
    using close_tracking_stop_rejected [of s lib] by blast
  from r show "fst (close lib s) =
        Inl (IOError (''error when stopping tracking.. the error was: ''
          @ errorString_answer lib
              (error_answer lib (calls s @ [NdiCommand (device s) ''TSTOP:'']) (device s))))"
    by simp
  from r show "device (snd (close lib s)) = device s"
    by simp
  from r show "state (snd (close lib s)) = state s"
    by simp
  from r show "prefix (calls s @ [NdiCommand (device s) ''TSTOP:'', NdiGetError (device s)])
        (calls (snd (close lib s)))"
    by (simp add: prefix_def)
qed

theorem close_stops_tears_down_and_clears_unless_stop_is_rejected_witness:
  "\<not> truthy (device init) \<and>
   close example_device init = (Inl (ValueError ''close called with no NDI device''), init) \<and>
   truthy (device example_connected) \<and> state example_connected \<noteq> Some ''tracking'' \<and>
   close example_device example_connected =
     (Inr (), example_connected\<lparr>device := PyNone,
        calls := calls example_connected @ [NdiCloseNetwork (device example_connected)]\<rparr>) \<and>
   truthy (device example_tracking) \<and> state example_tracking = Some ''tracking'' \<and>
   error_answer example_device
     (calls example_tracking @ [NdiCommand (device example_tracking) ''TSTOP:''])
     (device example_tracking) = NDI_OKAY example_device \<and>
   close example_device example_tracking =
     (Inr (), example_tracking\<lparr>state := Some ''ready'', device := PyNone,
        calls := calls example_tracking @
          [NdiCommand (device example_tracking) ''TSTOP:'', NdiGetError (device example_tracking),
           NdiClose (device example_tracking)]\<rparr>) \<and>
   error_answer example_faulty
     (calls example_tracking @ [NdiCommand (device example_tracking) ''TSTOP:''])
     (device example_tracking) \<noteq> NDI_OKAY example_faulty \<and>
   fst (close example_faulty example_tracking) =
     Inl (IOError ''error when stopping tracking.. the error was: error'') \<and>
   device (snd (close example_faulty example_tracking)) = device example_tracking \<and>
   state (snd (close example_faulty example_tracking)) = state example_tracking \<and>
   prefix (calls example_tracking @
             [NdiCommand (device example_tracking) ''TSTOP:'', NdiGetError (device example_tracking)])
     (calls (snd (close example_faulty example_tracking)))"
proof -
  have a: "\<not> truthy (device init)"
    by (simp add: init_def)
  have b: "truthy (device example_connected)" "state example_connected \<noteq> Some ''tracking''"
    "tracker_type example_connected = Some ''vega''"
    by code_simp+
  have c: "truthy (device example_tracking)" "state example_tracking = Some ''tracking''"
    "tracker_type example_tracking = Some ''polaris''"
    "error_answer example_device
       (calls example_tracking @ [NdiCommand (device example_tracking) ''TSTOP:''])
       (device example_tracking) = NDI_OKAY example_device"
    by (simp_all add: example_tracking_def init_def example_device_def)
  have d: "error_answer example_faulty
       (calls example_tracking @ [NdiCommand (device example_tracking) ''TSTOP:''])
       (device example_tracking) \<noteq> NDI_OKAY example_faulty"
    "errorString_answer example_faulty
       (error_answer example_faulty
          (calls example_tracking @ [NdiCommand (device example_tracking) ''TSTOP:''])
          (device example_tracking)) = ''error''"
    by (simp_all add: example_faulty_def example_device_def)
  from a b c
    close_stops_tears_down_and_clears_unless_stop_is_rejected [of init example_device]
    close_stops_tears_down_and_clears_unless_stop_is_rejected [of example_connected example_device]
    close_stops_tears_down_and_clears_unless_stop_is_rejected [of example_tracking example_device]
  have first: "close example_device init =
       (Inl (ValueError ''close called with no NDI device''), init) \<and>
     close example_device example_connected =
       (Inr (), example_connected\<lparr>device := PyNone,
          calls := calls example_connected @ [NdiCloseNetwork (device example_connected)]\<rparr>) \<and>
     close example_device example_tracking =
       (Inr (), example_tracking\<lparr>state := Some ''ready'', device := PyNone,
          calls := calls example_tracking @
            [NdiCommand (device example_tracking) ''TSTOP:'', NdiGetError (device example_tracking),
             NdiClose (device example_tracking)]\<rparr>)"
    by simp
  from c(1,2) d
    close_stops_tears_down_and_clears_unless_stop_is_rejected [of example_tracking example_faulty]
  have last: "fst (close example_faulty example_tracking) =
       Inl (IOError ''error when stopping tracking.. the error was: error'') \<and>
     device (snd (close example_faulty example_tracking)) = device example_tracking \<and>
     state (snd (close example_faulty example_tracking)) = state example_tracking \<and>
     prefix (calls example_tracking @
               [NdiCommand (device example_tracking) ''TSTOP:'', NdiGetError (device example_tracking)])
       (calls (snd (close example_faulty example_tracking)))"
    by simp
  from a b(1,2) c(1,2,4) d(1) first last show ?thesis by blast
qed

text \<open>
  The claim C8 as it was stated fails: an instance that has connected over the network and
  started tracking holds a handle, and when the device does not accept \<open>TSTOP:\<close>, \<open>close\<close>
  raises IOError, does not call \<open>ndiCloseNetwork\<close> and does not clear the handle.
\<close>

theorem close_raises_when_stop_is_rejected_counterexample:
  "fst (connect example_stop_rejected example_vega init) = Inr () \<and>
   fst (start_tracking example_stop_rejected
          (snd (connect example_stop_rejected example_vega init))) = Inr () \<and>
   tracker_type example_tracking_vega = Some ''vega'' \<and>
   state example_tracking_vega = Some ''tracking'' \<and>
   device example_tracking_vega = Handle 1 \<and>
   fst (close example_stop_rejected example_tracking_vega) =
     Inl (IOError ''error when stopping tracking.. the error was: error'') \<and>
   device (snd (close example_stop_rejected example_tracking_vega)) = Handle 1 \<and>
   state (snd (close example_stop_rejected example_tracking_vega)) = Some ''tracking'' \<and>
   drop (length (calls example_tracking_vega))
     (calls (snd (close example_stop_rejected example_tracking_vega))) =
     [NdiCommand (Handle 1) ''TSTOP:'', NdiGetError (Handle 1), NdiClose (Handle 1)]"
  by code_simp

text \<open>
  C9. In a successful \<open>get_frame\<close> on a tracker that is not the dummy, the row of a tool
  for which the device answered \<open>MISSING\<close> or \<open>DISABLED\<close> holds the port handle of the
  tool, the host timestamp and the frame number that the device answered, and
  not-a-number in the eight columns of the pose.
\<close>

theorem missing_or_disabled_keeps_nan_pose:
  assumes run: "fst (get_frame lib ts s) = Inr frame"
    and real: "tracker_type s \<noteq> Some ''dummy''"
    and i: "i < length (tool_descriptors s)"
    and reply: "reported_transform lib s i = MISSING \<or> reported_transform lib s i = DISABLED"
  shows "frame ! i = [as_float (port_handle (tool_descriptors s ! i)), Num ts,
                      Num (of_int (frame_number lib s i))] @ replicate 8 NaN"
proof -
  from run have "get_frame lib ts s = (Inr frame, snd (get_frame lib ts s))"
    by (simp add: prod_eq_iff)
  from get_frame_closed [OF this real] i reply show ?thesis
    by (auto simp add: row_of_def pose_block_def)
qed

theorem missing_or_disabled_keeps_nan_pose_witness:
  "fst (get_frame example_device 5 example_tracking) = Inr example_frame \<and>
   tracker_type example_tracking \<noteq> Some ''dummy'' \<and>
   0 < length (tool_descriptors example_tracking) \<and>
   reported_transform example_device example_tracking 0 = MISSING \<and>
   example_frame ! 0 =
     [as_float (port_handle (tool_descriptors example_tracking ! 0)), Num 5,
      Num (of_int (frame_number example_device example_tracking 0))] @ replicate 8 NaN"
proof -
  have run: "fst (get_frame example_device 5 example_tracking) = Inr example_frame"
    by code_simp
  have real: "tracker_type example_tracking \<noteq> Some ''dummy''"
    by code_simp
  have i: "0 < length (tool_descriptors example_tracking)"
    by code_simp
  have reply: "reported_transform example_device example_tracking 0 = MISSING"
    by code_simp
  from missing_or_disabled_keeps_nan_pose [OF run real i disjI1 [OF reply]] run real i reply
  show ?thesis by simp
qed

text \<open>
  C10. Configuring never removes a tool descriptor: the list after \<open>_configure\<close> starts with
  the list before it, and the descriptions after \<open>connect\<close> start with the descriptions
  before it, whether the call raises or not. After two successful calls of \<open>connect\<close> on
  one instance the descriptions are those of the instance before, then those of the first
  configuration, then those of the second; \<open>get_tool_descriptions\<close> lists all of them by
  index, a successful \<open>get_frame\<close> has as many rows, and for the dummy \<open>get_frame\<close> is
  successful.
\<close>

theorem configuring_appends_tool_descriptors:
  assumes c1: "connect lib1 cfg1 s0 = (Inr (), s1)"
    and c2: "connect lib2 cfg2 s1 = (Inr (), s2)"
  shows "prefix (tool_descriptors s) (tool_descriptors (snd (configure cfg s))) \<and>
    prefix (descriptions s) (descriptions (snd (connect lib cfg s))) \<and>
    descriptions s2 = descriptions s0 @ map description (new_tools cfg1)
       @ map description (new_tools cfg2) \<and>
    get_tool_descriptions s2 =
      (Inr (map (\<lambda>i. [PyInt (int i), descriptions s2 ! i]) [0..<length (descriptions s2)]), s2) \<and>
    (\<forall>frame. fst (get_frame lib ts s2) = Inr frame \<longrightarrow>
       length frame = length (tool_descriptors s0) + length (new_tools cfg1)
         + length (new_tools cfg2)) \<and>
    (tracker_type s2 = Some ''dummy'' \<longrightarrow>
       fst (get_frame lib ts s2) =
         Inr (replicate (length (tool_descriptors s0) + length (new_tools cfg1)
                + length (new_tools cfg2)) (NaN # Num ts # replicate 9 NaN)))"
proof -
  have grow: "descriptions (snd (connect l c t)) =
      descriptions t @ map description (if fst (configure c t) = Inr () then new_tools c else [])"
    for l c t
    by (simp add: connect_descriptions) (simp add: descriptions_def configure_tools)
  have ok: "fst (configure c t) = Inr ()" if "connect l c t = (Inr (), t')" for l c t t'
    using that connect_ok_configure_ok [of l c t] by simp
  from grow [of lib1 cfg1 s0] ok [OF c1] c1
  have d1: "descriptions s1 = descriptions s0 @ map description (new_tools cfg1)"
    by simp
  from grow [of lib2 cfg2 s1] ok [OF c2] c2
  have d2: "descriptions s2 = descriptions s1 @ map description (new_tools cfg2)"
    by simp
  from d1 d2 have d: "descriptions s2 = descriptions s0 @ map description (new_tools cfg1)
       @ map description (new_tools cfg2)"
    by simp
  have n: "length (tool_descriptors s2) = length (tool_descriptors s0) + length (new_tools cfg1)
         + length (new_tools cfg2)"
    using arg_cong [OF d, of length] by (simp add: descriptions_def)
  have p1: "prefix (tool_descriptors s) (tool_descriptors (snd (configure cfg s)))"
    by (simp add: configure_tools)
  have p2: "prefix (descriptions s) (descriptions (snd (connect lib cfg s)))"
    by (simp add: grow)
  have t: "get_tool_descriptions s2 =
      (Inr (map (\<lambda>i. [PyInt (int i), descriptions s2 ! i]) [0..<length (descriptions s2)]), s2)"
    by (simp add: get_tool_descriptions_result descriptions_def)
  have f: "\<forall>frame. fst (get_frame lib ts s2) = Inr frame \<longrightarrow>
       length frame = length (tool_descriptors s0) + length (new_tools cfg1)
         + length (new_tools cfg2)"
    using get_frame_length [of lib ts s2] n by simp
  have g: "tracker_type s2 = Some ''dummy'' \<longrightarrow>
       fst (get_frame lib ts s2) =
         Inr (replicate (length (tool_descriptors s0) + length (new_tools cfg1)
                + length (new_tools cfg2)) (NaN # Num ts # replicate 9 NaN))"
    using get_frame_dummy [of s2 lib ts] n by simp
  from p1 p2 d t f g show ?thesis by blast
qed

theorem configuring_appends_tool_descriptors_witness:
  "connect example_device example_dummy init =
     (Inr (), snd (connect example_device example_dummy init)) \<and>
   connect example_device example_dummy_more (snd (connect example_device example_dummy init)) =
     (Inr (), example_twice) \<and>
   descriptions example_twice = [PyStr ''a.rom'', PyStr ''b.rom'', PyStr ''c.rom''] \<and>
   fst (get_tool_descriptions example_twice) =
     Inr [[PyInt 0, PyStr ''a.rom''], [PyInt 1, PyStr ''b.rom''], [PyInt 2, PyStr ''c.rom'']] \<and>
   tracker_type example_twice = Some ''dummy'' \<and>
   fst (get_frame example_device 5 example_twice) =
     Inr (replicate 3 (NaN # Num 5 # replicate 9 NaN))"
proof -
  have "fst (connect example_device example_dummy init) = Inr ()"
    by code_simp
  then have c1: "connect example_device example_dummy init =
     (Inr (), snd (connect example_device example_dummy init))"
    by (simp add: prod_eq_iff)
  have "fst (connect example_device example_dummy_more
     (snd (connect example_device example_dummy init))) = Inr ()"
    by code_simp
  then have c2: "connect example_device example_dummy_more
     (snd (connect example_device example_dummy init)) = (Inr (), example_twice)"
    by (simp add: prod_eq_iff example_twice_def)
  have e: "descriptions init = []" "tool_descriptors init = []"
    "map description (new_tools example_dummy) = [PyStr ''a.rom'', PyStr ''b.rom'']"
    "map description (new_tools example_dummy_more) = [PyStr ''c.rom'']"
    by (simp_all add: descriptions_def init_def new_tools_def example_dummy_def
        example_dummy_more_def)
  have t: "tracker_type example_twice = Some ''dummy''"
    by code_simp
  note th = configuring_appends_tool_descriptors [OF c1 c2, where lib = example_device and ts = 5]
  from th have d: "descriptions example_twice = [PyStr ''a.rom'', PyStr ''b.rom'', PyStr ''c.rom'']"
    using e by simp
  from th have "get_tool_descriptions example_twice =
      (Inr (map (\<lambda>i. [PyInt (int i), descriptions example_twice ! i])
         [0..<length (descriptions example_twice)]), example_twice)"
    by blast
  then have g: "fst (get_tool_descriptions example_twice) =
     Inr [[PyInt 0, PyStr ''a.rom''], [PyInt 1, PyStr ''b.rom''], [PyInt 2, PyStr ''c.rom'']]"
    unfolding d by (simp add: upt_rec)
  from th t have "fst (get_frame example_device 5 example_twice) =
         Inr (replicate (length (tool_descriptors init) + length (new_tools example_dummy)
                + length (new_tools example_dummy_more)) (NaN # Num 5 # replicate 9 NaN))"
    by blast
  moreover have "length (new_tools example_dummy) = 2" "length (new_tools example_dummy_more) = 1"
    using arg_cong [OF e(3), of length] arg_cong [OF e(4), of length] by simp_all
  ultimately have f: "fst (get_frame example_device 5 example_twice) =
     Inr (replicate 3 (NaN # Num 5 # replicate 9 NaN))"
    using e by (simp add: numeral_3_eq_3)
  from c1 c2 d g t f show ?thesis by blast
qed

end
